theory Spec2Isabelle
  imports Complex_Main
begin

chapter \<open>A church administration API\<close>

text \<open>
  A shallow embedding of the request handlers, services and middleware of a REST
  backend written in TypeScript on Express and Prisma: the central error handler, the
  role check \<open>authorize\<close>, the list endpoints of members and ministries, the delete
  handlers, ministry membership, event registration, member creation and update, the
  age-group statistic, the periodic contribution statistic and the forgotten-password
  request. A handler is a function from the database and the request to what it sends,
  or the error it forwards to the error handler, and the database afterwards. Tables
  are lists of rows. What belongs to a library or to the database schema, neither of
  which is part of the sources, is an argument of the function that uses it.
\<close>

section \<open>Errors and responses\<close>

text \<open>
  A JavaScript error object as \<open>errorHandler\<close> reads it (\<open>middleware/errorHandler.ts\<close>):
  its \<open>name\<close>, its \<open>message\<close>, the own property \<open>statusCode\<close> (absent on a plain
  \<open>Error\<close>), the property \<open>code\<close> (a number for the Mongo driver, a string for Prisma,
  absent otherwise) and the property \<open>errors\<close> (absent, or an object whose values carry a
  \<open>message\<close>, itself possibly undefined).
\<close>

datatype js_code = CodeUndefined | CodeNum int | CodeStr string

record js_error =
  err_name :: string
  err_message :: string
  err_statusCode :: "int option"
  err_code :: js_code
  err_errors :: "string option list option"

text \<open>
  \<open>class CustomError extends Error\<close>: the constructor stores \<open>statusCode\<close>; \<open>name\<close> is
  inherited from \<open>Error.prototype\<close> and stays \<open>Error\<close>, since no subclass assigns it.
\<close>

definition CustomError :: "string \<Rightarrow> int \<Rightarrow> js_error" where
  "CustomError message statusCode =
     \<lparr>err_name = ''Error'', err_message = message, err_statusCode = Some statusCode,
      err_code = CodeUndefined, err_errors = None\<rparr>"

text \<open>\<open>class ApiError extends Error\<close>: \<open>errors\<close> is stored only when it is given.\<close>

definition ApiError :: "int \<Rightarrow> string \<Rightarrow> js_error" where
  "ApiError statusCode message =
     \<lparr>err_name = ''Error'', err_message = message, err_statusCode = Some statusCode,
      err_code = CodeUndefined, err_errors = None\<rparr>"

text \<open>
  \<open>new ApiError(statusCode, message, errors)\<close>, the call with the third argument: the
  array is stored in \<open>errors\<close>. The handlers pass \<open>validationResult(req).array()\<close>,
  whose entries carry \<open>msg\<close> and no \<open>message\<close>; an entry is kept as its \<open>message\<close>
  property, so it is \<open>None\<close> for them.
\<close>

definition ApiError_errors :: "int \<Rightarrow> string \<Rightarrow> string option list \<Rightarrow> js_error" where
  "ApiError_errors statusCode message errors =
     \<lparr>err_name = ''Error'', err_message = message, err_statusCode = Some statusCode,
      err_code = CodeUndefined, err_errors = Some errors\<rparr>"

definition ValidationError :: "string \<Rightarrow> js_error" where
  "ValidationError message = CustomError message 400"

definition UnauthorizedError :: "string \<Rightarrow> js_error" where
  "UnauthorizedError message = CustomError message 401"

definition ForbiddenError :: "string \<Rightarrow> js_error" where
  "ForbiddenError message = CustomError message 403"

definition NotFoundError :: "string \<Rightarrow> js_error" where
  "NotFoundError message = CustomError message 404"

definition ConflictError :: "string \<Rightarrow> js_error" where
  "ConflictError message = CustomError message 409"

text \<open>
  What a handler sends: \<open>res.status(s).json({success, message, ...})\<close>. The payload
  \<open>data\<close> is kept by the operations that return one; \<open>res_debug\<close> records whether the
  handler added the \<open>stack\<close> and \<open>error\<close> fields of development mode.
\<close>

record response =
  res_status :: int
  res_success :: bool
  res_message :: string
  res_debug :: bool

section \<open>The central error handler\<close>

text \<open>\<open>xs.join(', ')\<close>, where an undefined element prints as the empty string.\<close>

fun join_comma :: "string option list \<Rightarrow> string" where
  "join_comma [] = ''''"
| "join_comma [x] = (case x of None \<Rightarrow> '''' | Some s \<Rightarrow> s)"
| "join_comma (x # y # ys) =
     (case x of None \<Rightarrow> '''' | Some s \<Rightarrow> s) @ '', '' @ join_comma (y # ys)"

text \<open>\<open>error.statusCode || 500\<close>: an absent and a zero status code are both falsy.\<close>

definition status_or_500 :: "int option \<Rightarrow> int" where
  "status_or_500 sc = (case sc of None \<Rightarrow> 500 | Some n \<Rightarrow> if n = 0 then 500 else n)"

text \<open>\<open>error.message || 'Internal Server Error'\<close>: the empty message is falsy.\<close>

definition message_or_default :: "string \<Rightarrow> string" where
  "message_or_default m = (if m = '''' then ''Internal Server Error'' else m)"

text \<open>
  \<open>errorHandler\<close>, its tests in the order of the source; they are separate \<open>if\<close>
  statements, so a later one overrides an earlier one. \<open>Object.values(err.errors)\<close>
  throws a \<open>TypeError\<close> when \<open>errors\<close> is absent: the handler then sends nothing, which
  is the value \<open>None\<close>. The argument \<open>dev\<close> is
  \<open>process.env.NODE_ENV === 'development'\<close>.
\<close>

definition errorHandler :: "bool \<Rightarrow> js_error \<Rightarrow> response option" where
  "errorHandler dev err =
    (let error0 = err;
         error1 = (if err_name err = ''CastError''
                   then NotFoundError ''Resource not found'' else error0);
         error2 = (if err_code err = CodeNum 11000
                   then ConflictError ''Duplicate field value entered'' else error1)
     in if err_name err = ''ValidationError'' \<and> err_errors err = None then None
        else
          let error3 = (if err_name err = ''ValidationError''
                        then ValidationError (join_comma (the (err_errors err))) else error2);
              error4 = (if err_name err = ''JsonWebTokenError''
                        then UnauthorizedError ''Invalid token'' else error3);
              error5 = (if err_name err = ''TokenExpiredError''
                        then UnauthorizedError ''Token expired'' else error4);
              error6 = (if err_name err = ''PrismaClientKnownRequestError''
                        then (if err_code err = CodeStr ''P2002''
                              then ConflictError ''Duplicate field value entered''
                              else if err_code err = CodeStr ''P2025''
                              then NotFoundError ''Record not found''
                              else CustomError ''Database error'' 500)
                        else error5)
          in Some \<lparr>res_status = status_or_500 (err_statusCode error6),
                   res_success = False,
                   res_message = message_or_default (err_message error6),
                   res_debug = dev\<rparr>)"

text \<open>
  The names and the code that \<open>errorHandler\<close> tests for; an error with none of them
  keeps its own status code and message.
\<close>

definition special_case :: "js_error \<Rightarrow> bool" where
  "special_case err =
     (err_name err = ''CastError'' \<or> err_code err = CodeNum 11000 \<or>
      err_name err = ''ValidationError'' \<or> err_name err = ''JsonWebTokenError'' \<or>
      err_name err = ''TokenExpiredError'' \<or>
      err_name err = ''PrismaClientKnownRequestError'')"

section \<open>Authorization middleware\<close>

text \<open>\<open>req.user\<close> as \<open>authenticate\<close> sets it (\<open>middleware/auth.ts\<close>).\<close>

record req_user =
  user_id :: string
  user_email :: string
  user_role :: string
  user_isActive :: bool

text \<open>A middleware either calls \<open>next()\<close> or forwards an error with \<open>next(err)\<close>.\<close>

datatype next_call = Next | NextError js_error

text \<open>The argument of \<open>authorize\<close> has the type \<open>string[] | string\<close>.\<close>

datatype allowed_roles = RoleList "string list" | RoleName string

definition roles_of :: "allowed_roles \<Rightarrow> string list" where
  "roles_of allowedRoles =
     (case allowedRoles of RoleList rs \<Rightarrow> rs | RoleName r \<Rightarrow> [r])"

definition authorize :: "allowed_roles \<Rightarrow> req_user option \<Rightarrow> next_call" where
  "authorize allowedRoles user =
     (case user of
        None \<Rightarrow> NextError (UnauthorizedError ''Authentication required'')
      | Some u \<Rightarrow>
          if user_role u \<notin> set (roles_of allowedRoles)
          then NextError (ForbiddenError ''Insufficient permissions'')
          else Next)"

text \<open>
  The stack of the event router before \<open>DELETE /events/:id\<close>: \<open>router.use(authenticate)\<close>,
  the first \<open>router.use(authorize([...]))\<close>, then \<open>router.use(authorize(['SUPER_ADMIN']))\<close>
  and the route itself. The verification of the token is outside the source read here, so
  the outcome of \<open>authenticate\<close> is its argument: the error it forwards, or the user it
  stores in \<open>req.user\<close>. The result says whether \<open>deleteEvent\<close> is reached, and with which
  user, or which error goes to the error handler.
\<close>

definition delete_event_route :: "js_error + req_user \<Rightarrow> js_error + req_user" where
  "delete_event_route authenticated =
     (case authenticated of
        Inl e \<Rightarrow> Inl e
      | Inr u \<Rightarrow>
          (case authorize (RoleList [''ADMIN'', ''SUPER_ADMIN'', ''EVENT_ORGANIZER'',
                                     ''MINISTRY_LEADER'']) (Some u) of
             NextError e \<Rightarrow> Inl e
           | Next \<Rightarrow>
               (case authorize (RoleList [''SUPER_ADMIN'']) (Some u) of
                  NextError e \<Rightarrow> Inl e
                | Next \<Rightarrow> Inr u)))"

section \<open>The database\<close>

text \<open>
  The tables the operations below read and write, one record per row with the columns
  the code uses, and one list per table. A nullable column is an \<open>option\<close>. The Prisma
  schema is not part of the sources; the columns are those named in the queries. The code
  reaches ministry membership through two accessors, \<open>prisma.memberMinistry\<close> and
  \<open>prisma.ministryMember\<close>, which are kept as two tables.
\<close>

record member =
  m_id :: string
  m_name :: string
  m_email :: "string option"
  m_phone :: "string option"
  m_age :: "int option"
  m_gender :: "string option"
  m_address :: "string option"
  m_cellId :: "string option"
  m_userId :: "string option"
  m_birthDate :: "string option"
  m_occupation :: "string option"
  m_notes :: "string option"
  m_isActive :: bool

record ministry =
  min_id :: string
  min_name :: string
  min_description :: "string option"
  min_type :: string
  min_isActive :: bool

record memberMinistry =
  mm_id :: string
  mm_memberId :: string
  mm_ministryId :: string
  mm_role :: string
  mm_isActive :: bool

record event =
  ev_id :: string
  ev_ministryId :: "string option"
  ev_maxAttendees :: "int option"
  ev_registrationRequired :: bool
  ev_registrationDeadline :: "int option"
  ev_isActive :: bool

record eventRegistration =
  er_id :: string
  er_eventId :: string
  er_memberId :: string
  er_notes :: "string option"
  er_isActive :: bool

record ministryMember =
  mb_id :: string
  mb_ministryId :: string
  mb_memberId :: string
  mb_role :: string
  mb_joinedAt :: int
  mb_isActive :: bool

record eventAttendance =
  ea_eventId :: string
  ea_memberId :: string
  ea_status :: string

record contributionRow =
  cr_id :: string
  cr_memberId :: "string option"

record user =
  u_id :: string
  u_email :: string
  u_passwordResetToken :: "string option"
  u_passwordResetExpires :: "int option"

record db =
  members :: "member list"
  ministries :: "ministry list"
  memberMinistries :: "memberMinistry list"
  ministryMembers :: "ministryMember list"
  events :: "event list"
  eventRegistrations :: "eventRegistration list"
  eventAttendances :: "eventAttendance list"
  contributionRows :: "contributionRow list"
  users :: "user list"

text \<open>\<open>findUnique\<close> and \<open>findFirst\<close>: the first row that satisfies the condition.\<close>

definition findFirst :: "('r \<Rightarrow> bool) \<Rightarrow> 'r list \<Rightarrow> 'r option" where
  "findFirst p rows = List.find p rows"

text \<open>\<open>update({where: {id}, data})\<close>: the rows with the given key are rewritten.\<close>

definition updateWhere :: "('r \<Rightarrow> bool) \<Rightarrow> ('r \<Rightarrow> 'r) \<Rightarrow> 'r list \<Rightarrow> 'r list" where
  "updateWhere p f rows = map (\<lambda>r. if p r then f r else r) rows"

text \<open>\<open>count({where})\<close>.\<close>

definition countWhere :: "('r \<Rightarrow> bool) \<Rightarrow> 'r list \<Rightarrow> nat" where
  "countWhere p rows = length (filter p rows)"

section \<open>Age-group statistics\<close>








section \<open>Forgotten passwords\<close>

text \<open>
  \<open>String.prototype.toLowerCase\<close> on strings of ASCII characters: the 26 capitals are
  lowered. Letters outside ASCII, which JavaScript lowers too, are not represented.
\<close>

definition lower_char :: "char \<Rightarrow> char" where
  "lower_char c =
     (case map_of (zip ''ABCDEFGHIJKLMNOPQRSTUVWXYZ'' ''abcdefghijklmnopqrstuvwxyz'') c of
        None \<Rightarrow> c
      | Some l \<Rightarrow> l)"

definition toLowerCase :: "string \<Rightarrow> string" where
  "toLowerCase s = map lower_char s"

text \<open>
  \<open>NewAuthController.forgotPassword\<close>. The route validates the body with
  \<open>body('email').isEmail()\<close>; that validator belongs to a library, so it is the argument
  \<open>isEmail\<close>. The other arguments are the token \<open>crypto.randomBytes\<close> returns and the
  clock. When the validator fails, \<open>errors.array()\<close> holds its one finding, an object
  with \<open>msg\<close> and no \<open>message\<close>. The response is sent before the user row is written;
  the pair returned is what the handler sends, or the error it forwards, and the database
  afterwards.
\<close>

definition forgotPassword ::
  "(string \<Rightarrow> bool) \<Rightarrow> string \<Rightarrow> int \<Rightarrow> db \<Rightarrow> string \<Rightarrow> (js_error + response) \<times> db" where
  "forgotPassword isEmail resetToken now d email =
     (if \<not> isEmail email then (Inl (ApiError_errors 400 ''Validation failed'' [None]), d)
      else
        let user = findFirst (\<lambda>u. u_email u = toLowerCase email) (users d);
            sent = \<lparr>res_status = 200, res_success = True,
                    res_message = ''If the email exists, a password reset link has been sent'',
                    res_debug = False\<rparr>
        in case user of
             None \<Rightarrow> (Inr sent, d)
           | Some u \<Rightarrow>
               (Inr sent,
                d\<lparr>users := updateWhere (\<lambda>r. u_id r = u_id u)
                    (\<lambda>r. r\<lparr>u_passwordResetToken := Some resetToken,
                           u_passwordResetExpires := Some (now + 3600000)\<rparr>) (users d)\<rparr>))"

section \<open>Sample rows\<close>

text \<open>Rows and a database to run the operations on.\<close>

definition mk_member :: "string \<Rightarrow> string option \<Rightarrow> int option \<Rightarrow> bool \<Rightarrow> member" where
  "mk_member i email age active =
     \<lparr>m_id = i, m_name = i, m_email = email, m_phone = None, m_age = age,
      m_gender = None, m_address = None, m_cellId = None, m_userId = None,
      m_birthDate = None, m_occupation = None, m_notes = None, m_isActive = active\<rparr>"

definition mk_ministry :: "string \<Rightarrow> bool \<Rightarrow> ministry" where
  "mk_ministry i active =
     \<lparr>min_id = i, min_name = i, min_description = None, min_type = ''OTHER'',
      min_isActive = active\<rparr>"

definition mk_event :: "string \<Rightarrow> int option \<Rightarrow> bool \<Rightarrow> event" where
  "mk_event i maxAttendees active =
     \<lparr>ev_id = i, ev_ministryId = None, ev_maxAttendees = maxAttendees,
      ev_registrationRequired = False, ev_registrationDeadline = None,
      ev_isActive = active\<rparr>"

definition mk_registration :: "string \<Rightarrow> string \<Rightarrow> string \<Rightarrow> bool \<Rightarrow> eventRegistration" where
  "mk_registration i eventId memberId active =
     \<lparr>er_id = i, er_eventId = eventId, er_memberId = memberId, er_notes = None,
      er_isActive = active\<rparr>"

definition mk_membership :: "string \<Rightarrow> string \<Rightarrow> string \<Rightarrow> bool \<Rightarrow> memberMinistry" where
  "mk_membership i memberId ministryId active =
     \<lparr>mm_id = i, mm_memberId = memberId, mm_ministryId = ministryId,
      mm_role = ''member'', mm_isActive = active\<rparr>"


definition empty_db :: db where
  "empty_db =
     \<lparr>members = [], ministries = [], memberMinistries = [], ministryMembers = [],
      events = [],
      eventRegistrations = [], eventAttendances = [], contributionRows = [], users = []\<rparr>"


section \<open>Listing members and ministries\<close>

text \<open>
  A value of \<open>req.query\<close> after the destructuring default: the handlers write
  \<open>isActive = true\<close>, so an absent parameter becomes the boolean \<open>true\<close>, while a
  parameter that is present is a string.
\<close>

datatype js_value = JBool bool | JStr string

definition with_default :: "string option \<Rightarrow> js_value \<Rightarrow> js_value" where
  "with_default param dflt = (case param of None \<Rightarrow> dflt | Some s \<Rightarrow> JStr s)"

text \<open>
  \<open>req.query\<close> of the list endpoints. \<open>page\<close> and \<open>limit\<close> hold the number
  \<open>parseInt\<close> reads from the parameter.
\<close>

record list_query =
  q_page :: "int option"
  q_limit :: "int option"
  q_search :: "string option"
  q_cellId :: "string option"
  q_ministryId :: "string option"
  q_type :: "string option"
  q_isActive :: "string option"
  q_sortBy :: "string option"
  q_sortOrder :: "string option"

definition no_query :: list_query where
  "no_query =
     \<lparr>q_page = None, q_limit = None, q_search = None, q_cellId = None,
      q_ministryId = None, q_type = None, q_isActive = None, q_sortBy = None,
      q_sortOrder = None\<rparr>"

text \<open>
  The \<open>where\<close> object of a query: each key is present or absent. \<open>OR\<close> holds the
  columns searched and the text looked for.
\<close>

record where_clause =
  w_OR :: "(string list \<times> string) option"
  w_cellId :: "string option"
  w_type :: "string option"
  w_isActive :: "bool option"
  w_ministries_some :: "string option"

definition where_empty :: where_clause where
  "where_empty =
     \<lparr>w_OR = None, w_cellId = None, w_type = None, w_isActive = None,
      w_ministries_some = None\<rparr>"

text \<open>
  The filter \<open>{contains: s, mode: 'insensitive'}\<close> of the database, on ASCII letters.
\<close>

fun starts_with :: "string \<Rightarrow> string \<Rightarrow> bool" where
  "starts_with [] hay = True"
| "starts_with (c # cs) [] = False"
| "starts_with (c # cs) (h # hay) = (c = h \<and> starts_with cs hay)"

fun includes_text :: "string \<Rightarrow> string \<Rightarrow> bool" where
  "includes_text needle [] = (needle = [])"
| "includes_text needle (h # hay) =
     (starts_with needle (h # hay) \<or> includes_text needle hay)"

definition contains_insensitive :: "string option \<Rightarrow> string \<Rightarrow> bool" where
  "contains_insensitive column s =
     (case column of
        None \<Rightarrow> False
      | Some v \<Rightarrow> includes_text (toLowerCase s) (toLowerCase v))"

definition member_column :: "string \<Rightarrow> member \<Rightarrow> string option" where
  "member_column c m =
     (if c = ''name'' then Some (m_name m)
      else if c = ''email'' then m_email m
      else if c = ''phone'' then m_phone m
      else None)"

definition ministry_column :: "string \<Rightarrow> ministry \<Rightarrow> string option" where
  "ministry_column c m =
     (if c = ''name'' then Some (min_name m)
      else if c = ''description'' then min_description m
      else None)"

text \<open>Whether a member row satisfies a \<open>where\<close> object: every key present must hold.\<close>

definition member_matches :: "db \<Rightarrow> where_clause \<Rightarrow> member \<Rightarrow> bool" where
  "member_matches d w m =
     ((case w_OR w of
         None \<Rightarrow> True
       | Some (cols, s) \<Rightarrow> list_ex (\<lambda>c. contains_insensitive (member_column c m) s) cols) \<and>
      (case w_cellId w of None \<Rightarrow> True | Some c \<Rightarrow> m_cellId m = Some c) \<and>
      (case w_isActive w of None \<Rightarrow> True | Some b \<Rightarrow> m_isActive m = b) \<and>
      (case w_ministries_some w of
         None \<Rightarrow> True
       | Some i \<Rightarrow>
           list_ex (\<lambda>r. mm_memberId r = m_id m \<and> mm_ministryId r = i \<and> mm_isActive r)
             (memberMinistries d)))"

definition ministry_matches :: "where_clause \<Rightarrow> ministry \<Rightarrow> bool" where
  "ministry_matches w m =
     ((case w_OR w of
         None \<Rightarrow> True
       | Some (cols, s) \<Rightarrow> list_ex (\<lambda>c. contains_insensitive (ministry_column c m) s) cols) \<and>
      (case w_type w of None \<Rightarrow> True | Some t \<Rightarrow> min_type m = t) \<and>
      (case w_isActive w of None \<Rightarrow> True | Some b \<Rightarrow> min_isActive m = b))"

text \<open>
  \<open>findMany({where, skip, take, orderBy})\<close>: the rows that satisfy \<open>where\<close>, ordered and
  cut to the page by the database. Ordering and paging are the database's, so they are
  the argument \<open>window\<close>, which receives \<open>orderBy\<close>, \<open>skip\<close> and \<open>take\<close>.
\<close>

type_synonym 'r window = "string \<times> string \<Rightarrow> int \<Rightarrow> int \<Rightarrow> 'r list \<Rightarrow> 'r list"

definition findMany ::
  "'r window \<Rightarrow> ('r \<Rightarrow> bool) \<Rightarrow> int \<Rightarrow> int \<Rightarrow> string \<times> string \<Rightarrow> 'r list \<Rightarrow> 'r list" where
  "findMany window p skip take' orderBy rows = window orderBy skip take' (filter p rows)"

text \<open>A window that keeps the stored order: \<open>take\<close> rows after \<open>skip\<close> rows.\<close>

definition plain_window :: "'r window" where
  "plain_window orderBy skip take' rows = take (nat take') (drop (nat skip) rows)"

text \<open>\<open>if (x)\<close> on a query string: absent and empty are falsy.\<close>

definition truthy :: "string option \<Rightarrow> bool" where
  "truthy x = (case x of None \<Rightarrow> False | Some s \<Rightarrow> s \<noteq> '''')"

text \<open>
  \<open>SimpleMemberController.getMembers\<close>, the handler of \<open>GET /members\<close>: the \<open>where\<close>
  object it builds, then the rows and the total it sends as \<open>data\<close> and
  \<open>pagination.total\<close>.
\<close>

definition getMembers_where :: "list_query \<Rightarrow> where_clause" where
  "getMembers_where q =
     (let isActive = with_default (q_isActive q) (JBool True);
          w0 = where_empty;
          w1 = (if truthy (q_search q)
                then w0\<lparr>w_OR := Some ([''name'', ''email''], the (q_search q))\<rparr> else w0);
          w2 = (if truthy (q_cellId q) then w1\<lparr>w_cellId := q_cellId q\<rparr> else w1);
          w3 = w2\<lparr>w_isActive := Some (isActive = JStr ''true'')\<rparr>;
          w4 = (if truthy (q_ministryId q)
                then w3\<lparr>w_ministries_some := q_ministryId q\<rparr> else w3)
      in w4)"

definition getMembers :: "member window \<Rightarrow> db \<Rightarrow> list_query \<Rightarrow> member list \<times> nat" where
  "getMembers window d q =
     (let page = (case q_page q of None \<Rightarrow> 1 | Some n \<Rightarrow> n);
          limit = (case q_limit q of None \<Rightarrow> 10 | Some n \<Rightarrow> n);
          sortBy = (case q_sortBy q of None \<Rightarrow> ''name'' | Some s \<Rightarrow> s);
          sortOrder = (case q_sortOrder q of None \<Rightarrow> ''asc'' | Some s \<Rightarrow> s);
          skip = (page - 1) * limit;
          take' = limit;
          w = getMembers_where q
      in (findMany window (member_matches d w) skip take' (sortBy, sortOrder) (members d),
          countWhere (member_matches d w) (members d)))"

text \<open>\<open>MinistryController.getMinistries\<close>, the handler of \<open>GET /ministries\<close>.\<close>

definition getMinistries_where :: "list_query \<Rightarrow> where_clause" where
  "getMinistries_where q =
     (let isActive = with_default (q_isActive q) (JBool True);
          w0 = where_empty;
          w1 = (if truthy (q_search q)
                then w0\<lparr>w_OR := Some ([''name'', ''description''], the (q_search q))\<rparr>
                else w0);
          w2 = (if truthy (q_type q) then w1\<lparr>w_type := q_type q\<rparr> else w1);
          w3 = w2\<lparr>w_isActive := Some (isActive = JStr ''true'')\<rparr>
      in w3)"

definition getMinistries ::
  "ministry window \<Rightarrow> db \<Rightarrow> list_query \<Rightarrow> ministry list \<times> nat" where
  "getMinistries window d q =
     (let page = (case q_page q of None \<Rightarrow> 1 | Some n \<Rightarrow> n);
          limit = (case q_limit q of None \<Rightarrow> 10 | Some n \<Rightarrow> n);
          sortBy = (case q_sortBy q of None \<Rightarrow> ''name'' | Some s \<Rightarrow> s);
          sortOrder = (case q_sortOrder q of None \<Rightarrow> ''asc'' | Some s \<Rightarrow> s);
          skip = (page - 1) * limit;
          take' = limit;
          w = getMinistries_where q
      in (findMany window (ministry_matches w) skip take' (sortBy, sortOrder) (ministries d),
          countWhere (ministry_matches w) (ministries d)))"

text \<open>
  \<open>MemberService.findAll\<close> with its \<open>MemberSearchParams\<close>, and \<open>MemberController.getAll\<close>,
  which passes \<open>isActive: isActive === 'true'\<close>, a boolean also when the parameter is
  absent.
\<close>

record memberSearchParams =
  p_skip :: int
  p_take :: int
  p_search :: "string option"
  p_cellId :: "string option"
  p_ministryId :: "string option"
  p_isActive :: "bool option"
  p_sortBy :: "string option"
  p_sortOrder :: "string option"

definition findAll_where :: "memberSearchParams \<Rightarrow> where_clause" where
  "findAll_where params =
     (let w0 = where_empty;
          w1 = (if truthy (p_search params)
                then w0\<lparr>w_OR := Some ([''name'', ''email'', ''phone''], the (p_search params))\<rparr>
                else w0);
          w2 = (if truthy (p_cellId params) then w1\<lparr>w_cellId := p_cellId params\<rparr> else w1);
          w3 = (if truthy (p_ministryId params)
                then w2\<lparr>w_ministries_some := p_ministryId params\<rparr> else w2);
          w4 = (if p_isActive params \<noteq> None
                then w3\<lparr>w_isActive := p_isActive params\<rparr> else w3)
      in w4)"

definition findAll :: "member window \<Rightarrow> db \<Rightarrow> memberSearchParams \<Rightarrow> member list \<times> nat" where
  "findAll window d params =
     (let w = findAll_where params;
          orderBy = (if truthy (p_sortBy params)
                     then (the (p_sortBy params),
                           if truthy (p_sortOrder params) then the (p_sortOrder params)
                           else ''desc'')
                     else (''createdAt'', ''desc''))
      in (findMany window (member_matches d w) (p_skip params) (p_take params) orderBy
            (members d),
          countWhere (member_matches d w) (members d)))"

definition getAll :: "member window \<Rightarrow> db \<Rightarrow> list_query \<Rightarrow> member list \<times> nat" where
  "getAll window d q =
     (let page = (case q_page q of None \<Rightarrow> 1 | Some n \<Rightarrow> n);
          limit = (case q_limit q of None \<Rightarrow> 10 | Some n \<Rightarrow> n);
          sortBy = (case q_sortBy q of None \<Rightarrow> ''createdAt'' | Some s \<Rightarrow> s);
          sortOrder = (case q_sortOrder q of None \<Rightarrow> ''desc'' | Some s \<Rightarrow> s)
      in findAll window d
           \<lparr>p_skip = (page - 1) * limit, p_take = limit, p_search = q_search q,
            p_cellId = q_cellId q, p_ministryId = q_ministryId q,
            p_isActive = Some (q_isActive q = Some ''true''),
            p_sortBy = Some sortBy, p_sortOrder = Some sortOrder\<rparr>)"

section \<open>Deleting events, ministries and members\<close>

text \<open>
  The errors of the Prisma client: no \<open>statusCode\<close>, the name
  \<open>PrismaClientKnownRequestError\<close> and a \<open>code\<close>.
\<close>

definition PrismaError :: "string \<Rightarrow> string \<Rightarrow> js_error" where
  "PrismaError code message =
     \<lparr>err_name = ''PrismaClientKnownRequestError'', err_message = message,
      err_statusCode = None, err_code = CodeStr code, err_errors = None\<rparr>"

text \<open>
  \<open>delete({where: {id}})\<close>: throws \<open>P2025\<close> when no row has the key. The referential
  actions of the schema are not in the sources, so whether the database refuses to
  delete a row that other rows still point to (\<open>P2003\<close>) is the argument \<open>refused\<close>;
  rows of other tables are left as they are.
\<close>

definition prisma_delete :: "bool \<Rightarrow> ('r \<Rightarrow> bool) \<Rightarrow> 'r list \<Rightarrow> js_error + 'r list" where
  "prisma_delete refused p rows =
     (if \<not> list_ex p rows then Inl (PrismaError ''P2025'' ''Record to delete does not exist'')
      else if refused then Inl (PrismaError ''P2003'' ''Foreign key constraint failed'')
      else Inr (filter (\<lambda>r. \<not> p r) rows))"

text \<open>\<open>res.json({success: true, message})\<close>, sent with the default status 200.\<close>

definition ok_message :: "string \<Rightarrow> response" where
  "ok_message message =
     \<lparr>res_status = 200, res_success = True, res_message = message, res_debug = False\<rparr>"

text \<open>
  \<open>EventController.deleteEvent\<close>: what the handler sends, or the error it forwards with
  \<open>next(error)\<close>, and the database afterwards.
\<close>

definition deleteEvent :: "bool \<Rightarrow> db \<Rightarrow> string \<Rightarrow> (js_error + response) \<times> db" where
  "deleteEvent refused d id' =
     (if id' = '''' then (Inl (ApiError 400 ''Event ID is required''), d)
      else
        case findFirst (\<lambda>e. ev_id e = id') (events d) of
          None \<Rightarrow> (Inl (ApiError 404 ''Event not found''), d)
        | Some event \<Rightarrow>
            let registrations =
                  countWhere (\<lambda>r. er_eventId r = id' \<and> er_isActive r) (eventRegistrations d);
                attendances = countWhere (\<lambda>a. ea_eventId a = id') (eventAttendances d)
            in if registrations > 0 \<or> attendances > 0
               then (Inr (ok_message
                       ''Event deactivated successfully (has existing registrations/attendance)''),
                     d\<lparr>events := updateWhere (\<lambda>e. ev_id e = id')
                                   (\<lambda>e. e\<lparr>ev_isActive := False\<rparr>) (events d)\<rparr>)
               else
                 (case prisma_delete refused (\<lambda>e. ev_id e = id') (events d) of
                    Inl err \<Rightarrow> (Inl err, d)
                  | Inr rows \<Rightarrow>
                      (Inr (ok_message ''Event deleted successfully''), d\<lparr>events := rows\<rparr>)))"

text \<open>\<open>MinistryController.deleteMinistry\<close>.\<close>

definition deleteMinistry :: "bool \<Rightarrow> db \<Rightarrow> string \<Rightarrow> (js_error + response) \<times> db" where
  "deleteMinistry refused d id' =
     (if id' = '''' then (Inl (ApiError 400 ''Ministry ID is required''), d)
      else
        case findFirst (\<lambda>m. min_id m = id') (ministries d) of
          None \<Rightarrow> (Inl (ApiError 404 ''Ministry not found''), d)
        | Some ministry \<Rightarrow>
            let members' =
                  countWhere (\<lambda>r. mm_ministryId r = id' \<and> mm_isActive r) (memberMinistries d);
                events' =
                  countWhere (\<lambda>e. ev_ministryId e = Some id' \<and> ev_isActive e) (events d)
            in if members' > 0
               then (Inl (ApiError 400
                       ''Cannot delete ministry with active members. Remove all members first.''),
                     d)
               else if events' > 0
               then (Inl (ApiError 400
                       ''Cannot delete ministry with active events. Delete or reassign events first.''),
                     d)
               else
                 (case prisma_delete refused (\<lambda>m. min_id m = id') (ministries d) of
                    Inl err \<Rightarrow> (Inl err, d)
                  | Inr rows \<Rightarrow>
                      (Inr (ok_message ''Ministry deleted successfully''),
                       d\<lparr>ministries := rows\<rparr>)))"

text \<open>
  \<open>SimpleMemberController.deleteMember\<close>, the handler of \<open>DELETE /members/:id\<close>.
\<close>

definition deleteMember :: "bool \<Rightarrow> db \<Rightarrow> string \<Rightarrow> (js_error + response) \<times> db" where
  "deleteMember refused d id' =
     (if id' = '''' then (Inl (ApiError 400 ''Member ID is required''), d)
      else
        case findFirst (\<lambda>m. m_id m = id') (members d) of
          None \<Rightarrow> (Inl (ApiError 404 ''Member not found''), d)
        | Some member \<Rightarrow>
            let contributions =
                  countWhere (\<lambda>c. cr_memberId c = Some id') (contributionRows d);
                ministries' =
                  countWhere (\<lambda>r. mm_memberId r = id' \<and> mm_isActive r) (memberMinistries d)
            in if contributions > 0 \<or> ministries' > 0
               then (Inr (ok_message ''Member deactivated successfully (has existing records)''),
                     d\<lparr>members := updateWhere (\<lambda>m. m_id m = id')
                                    (\<lambda>m. m\<lparr>m_isActive := False\<rparr>) (members d)\<rparr>)
               else
                 (case prisma_delete refused (\<lambda>m. m_id m = id') (members d) of
                    Inl err \<Rightarrow> (Inl err, d)
                  | Inr rows \<Rightarrow>
                      (Inr (ok_message ''Member deleted successfully''), d\<lparr>members := rows\<rparr>)))"

text \<open>
  \<open>MemberService.delete\<close>: the row is deleted without a look at dependent rows, and any
  error of the database becomes the result \<open>false\<close>.
\<close>

definition delete_member_service :: "bool \<Rightarrow> db \<Rightarrow> string \<Rightarrow> bool \<times> db" where
  "delete_member_service refused d id' =
     (case prisma_delete refused (\<lambda>m. m_id m = id') (members d) of
        Inl err \<Rightarrow> (False, d)
      | Inr rows \<Rightarrow> (True, d\<lparr>members := rows\<rparr>))"

text \<open>
  The conditions the delete handlers test: a row with the key exists, and the counts
  they read are positive.
\<close>

definition event_blocked :: "db \<Rightarrow> string \<Rightarrow> bool" where
  "event_blocked d id' =
     (list_ex (\<lambda>r. er_eventId r = id' \<and> er_isActive r) (eventRegistrations d) \<or>
      list_ex (\<lambda>a. ea_eventId a = id') (eventAttendances d))"

definition member_blocked :: "db \<Rightarrow> string \<Rightarrow> bool" where
  "member_blocked d id' =
     (list_ex (\<lambda>c. cr_memberId c = Some id') (contributionRows d) \<or>
      list_ex (\<lambda>r. mm_memberId r = id' \<and> mm_isActive r) (memberMinistries d))"

definition ministry_blocked :: "db \<Rightarrow> string \<Rightarrow> bool" where
  "ministry_blocked d id' =
     (list_ex (\<lambda>r. mm_ministryId r = id' \<and> mm_isActive r) (memberMinistries d) \<or>
      list_ex (\<lambda>e. ev_ministryId e = Some id' \<and> ev_isActive e) (events d))"

section \<open>Ministry membership\<close>














section \<open>Event registration\<close>

text \<open>\<open>_count.registrations\<close> with \<open>where: {isActive: true}\<close>.\<close>

definition active_registrations :: "db \<Rightarrow> string \<Rightarrow> nat" where
  "active_registrations d eventId =
     countWhere (\<lambda>r. er_eventId r = eventId \<and> er_isActive r) (eventRegistrations d)"

text \<open>
  \<open>EventController.registerForEvent\<close>, with the event id of the route, the \<open>memberId\<close> and
  \<open>notes\<close> of the body (an absent \<open>memberId\<close> is the empty string), the clock \<open>now\<close> and
  the id \<open>newId\<close> the database gives to a created row. \<open>event.maxAttendees &&\<close> is falsy
  for null and for 0. A \<open>notes\<close> that is undefined leaves the column as it is.
\<close>

definition registerForEvent ::
  "string \<Rightarrow> int \<Rightarrow> db \<Rightarrow> string \<Rightarrow> string \<Rightarrow> string option \<Rightarrow> (js_error + response) \<times> db" where
  "registerForEvent newId now d id' memberId notes =
     (if id' = '''' \<or> memberId = ''''
      then (Inl (ApiError 400 ''Event ID and Member ID are required''), d)
      else
      (case findFirst (\<lambda>e. ev_id e = id' \<and> ev_isActive e) (events d) of
        None \<Rightarrow> (Inl (ApiError 404 ''Event not found or inactive''), d)
      | Some event \<Rightarrow>
          if ev_registrationRequired event \<and> ev_registrationDeadline event \<noteq> None \<and>
             now > the (ev_registrationDeadline event)
          then (Inl (ApiError 400 ''Registration deadline has passed''), d)
          else if ev_maxAttendees event \<noteq> None \<and> the (ev_maxAttendees event) \<noteq> 0 \<and>
                  int (active_registrations d id') \<ge> the (ev_maxAttendees event)
          then (Inl (ApiError 400 ''Event is full''), d)
          else
          (case findFirst (\<lambda>m. m_id m = memberId) (members d) of
            None \<Rightarrow> (Inl (ApiError 404 ''Member not found''), d)
          | Some member \<Rightarrow>
              (let existingRegistration =
                     findFirst (\<lambda>r. er_eventId r = id' \<and> er_memberId r = memberId)
                       (eventRegistrations d);
                   created = \<lparr>res_status = 201, res_success = True,
                              res_message = ''Registered for event successfully'',
                              res_debug = False\<rparr>
               in if existingRegistration \<noteq> None \<and> er_isActive (the existingRegistration)
                  then (Inl (ApiError 409 ''Member is already registered for this event''), d)
                  else if existingRegistration \<noteq> None
                  then (Inr created,
                        d\<lparr>eventRegistrations :=
                            updateWhere (\<lambda>r. er_id r = er_id (the existingRegistration))
                              (\<lambda>r. r\<lparr>er_isActive := True,
                                     er_notes := (case notes of None \<Rightarrow> er_notes r
                                                  | Some n \<Rightarrow> Some n)\<rparr>)
                              (eventRegistrations d)\<rparr>)
                  else (Inr created,
                        d\<lparr>eventRegistrations := eventRegistrations d @
                            [\<lparr>er_id = newId, er_eventId = id', er_memberId = memberId,
                              er_notes = notes, er_isActive = True\<rparr>]\<rparr>)))))"

text \<open>
  The state a run of registration requests starts from and keeps: the ids of events and
  of registration rows are keys, and the id given to a new row is not in use.
\<close>

definition registration_keys :: "db \<Rightarrow> bool" where
  "registration_keys d =
     (distinct (map ev_id (events d)) \<and> distinct (map er_id (eventRegistrations d)))"

text \<open>
  Sequential execution: a list of registration requests, each run on the database the
  previous one left. A request carries what \<open>registerForEvent\<close> takes.
\<close>

record reg_request =
  rq_newId :: string
  rq_now :: int
  rq_id :: string
  rq_memberId :: string
  rq_notes :: "string option"

definition register_step :: "db \<Rightarrow> reg_request \<Rightarrow> db" where
  "register_step d rq =
     snd (registerForEvent (rq_newId rq) (rq_now rq) d (rq_id rq) (rq_memberId rq) (rq_notes rq))"

fun run_registrations :: "db \<Rightarrow> reg_request list \<Rightarrow> db" where
  "run_registrations d [] = d"
| "run_registrations d (rq # rqs) = run_registrations (register_step d rq) rqs"

text \<open>The database gives each created row an id that no row has yet.\<close>

fun fresh_ids :: "db \<Rightarrow> reg_request list \<Rightarrow> bool" where
  "fresh_ids d [] = True"
| "fresh_ids d (rq # rqs) =
     (rq_newId rq \<notin> set (map er_id (eventRegistrations d)) \<and>
      fresh_ids (register_step d rq) rqs)"

section \<open>Creating and updating members\<close>

text \<open>
  A property of the payload \<open>Partial<Member>\<close> for a nullable column: absent, null or a
  value. The properties \<open>name\<close> and \<open>isActive\<close> are not nullable and so are an
  \<open>option\<close>, absent or a value.
\<close>

datatype 'a field = Undefined | Null | Val 'a

record member_data =
  d_name :: "string option"
  d_email :: "string field"
  d_phone :: "string field"
  d_age :: "int field"
  d_gender :: "string field"
  d_address :: "string field"
  d_cellId :: "string field"
  d_userId :: "string field"
  d_birthDate :: "string field"
  d_occupation :: "string field"
  d_notes :: "string field"
  d_isActive :: "bool option"

text \<open>What a property writes into a nullable column on \<open>create\<close>.\<close>

definition to_column :: "'a field \<Rightarrow> 'a option" where
  "to_column x = (case x of Undefined \<Rightarrow> None | Null \<Rightarrow> None | Val v \<Rightarrow> Some v)"

text \<open>\<open>if (x)\<close> on a string property: absent, null and empty are falsy.\<close>

definition truthy_field :: "string field \<Rightarrow> bool" where
  "truthy_field x = (case x of Undefined \<Rightarrow> False | Null \<Rightarrow> False | Val s \<Rightarrow> s \<noteq> '''')"

text \<open>
  \<open>...(x !== undefined && {column: x})\<close> on \<open>update\<close>: an absent property leaves the
  column, null clears it.
\<close>

definition set_column :: "'a field \<Rightarrow> 'a option \<Rightarrow> 'a option" where
  "set_column x old = (case x of Undefined \<Rightarrow> old | Null \<Rightarrow> None | Val v \<Rightarrow> Some v)"

text \<open>
  The writes of the database on the member table. The email column is unique (the code
  reads it with \<open>findUnique\<close>), so a second row with the same email is refused with
  \<open>P2002\<close>; null emails do not collide. \<open>create\<close> needs a name. The constraints of the
  schema on the other columns are not in the sources: whether one of them refuses the
  write is the argument \<open>refused\<close>.
\<close>

definition email_taken :: "string option \<Rightarrow> member list \<Rightarrow> bool" where
  "email_taken email rows =
     (case email of None \<Rightarrow> False | Some e \<Rightarrow> list_ex (\<lambda>m. m_email m = Some e) rows)"

definition prisma_member_create ::
  "bool \<Rightarrow> string option \<Rightarrow> (string \<Rightarrow> member) \<Rightarrow> member list \<Rightarrow> js_error + member \<times> member list"
  where
  "prisma_member_create refused name row rows =
     (case name of
        None \<Rightarrow>
          Inl \<lparr>err_name = ''PrismaClientValidationError'',
               err_message = ''Argument name is missing'', err_statusCode = None,
               err_code = CodeUndefined, err_errors = None\<rparr>
      | Some n \<Rightarrow>
          if email_taken (m_email (row n)) rows
          then Inl (PrismaError ''P2002'' ''Unique constraint failed on the fields: (email)'')
          else if refused then Inl (PrismaError ''P2003'' ''Foreign key constraint failed'')
          else Inr (row n, rows @ [row n]))"

definition prisma_member_update ::
  "bool \<Rightarrow> string \<Rightarrow> (member \<Rightarrow> member) \<Rightarrow> member list \<Rightarrow> js_error + member \<times> member list"
  where
  "prisma_member_update refused id' f rows =
     (case findFirst (\<lambda>m. m_id m = id') rows of
        None \<Rightarrow> Inl (PrismaError ''P2025'' ''Record to update not found'')
      | Some old \<Rightarrow>
          if email_taken (m_email (f old)) (filter (\<lambda>m. m_id m \<noteq> id') rows)
          then Inl (PrismaError ''P2002'' ''Unique constraint failed on the fields: (email)'')
          else if refused then Inl (PrismaError ''P2003'' ''Foreign key constraint failed'')
          else Inr (f old, updateWhere (\<lambda>m. m_id m = id') f rows))"

text \<open>
  \<open>MemberService.create\<close>: the member returned, or the error thrown, and the database
  afterwards. \<open>newId\<close> is the id the database gives the row; \<open>isActive\<close> is not written
  and takes the column default, true as in \<open>SimpleMemberController.createMember\<close>.
\<close>

definition create ::
  "bool \<Rightarrow> string \<Rightarrow> db \<Rightarrow> member_data \<Rightarrow> (js_error + member) \<times> db" where
  "create refused newId d data =
     (if truthy_field (d_email data) \<and>
         findFirst (\<lambda>m. m_email m = to_column (d_email data)) (members d) \<noteq> None
      then (Inl (ConflictError ''Member with this email already exists''), d)
      else
        (case prisma_member_create refused (d_name data)
                (\<lambda>name.
                  \<lparr>m_id = newId, m_name = name, m_email = to_column (d_email data),
                   m_phone = to_column (d_phone data), m_age = to_column (d_age data),
                   m_gender = to_column (d_gender data),
                   m_address = to_column (d_address data),
                   m_cellId = to_column (d_cellId data),
                   m_userId = to_column (d_userId data),
                   m_birthDate = (if truthy_field (d_birthDate data)
                                  then to_column (d_birthDate data) else None),
                   m_occupation = to_column (d_occupation data),
                   m_notes = to_column (d_notes data), m_isActive = True\<rparr>)
                (members d) of
           Inl err \<Rightarrow> (Inl err, d)
         | Inr (member, rows) \<Rightarrow> (Inr member, d\<lparr>members := rows\<rparr>)))"

text \<open>
  \<open>MemberService.update\<close>: \<open>null\<close> when no member has the id (the value \<open>None\<close>), else
  the updated member, or the error thrown.
\<close>

definition update ::
  "bool \<Rightarrow> db \<Rightarrow> string \<Rightarrow> member_data \<Rightarrow> (js_error + member option) \<times> db" where
  "update refused d id' data =
     (case findFirst (\<lambda>m. m_id m = id') (members d) of
        None \<Rightarrow> (Inr None, d)
      | Some existingMember \<Rightarrow>
          if truthy_field (d_email data) \<and>
             to_column (d_email data) \<noteq> m_email existingMember \<and>
             findFirst (\<lambda>m. m_email m = to_column (d_email data)) (members d) \<noteq> None
          then (Inl (ConflictError ''Member with this email already exists''), d)
          else
            (case prisma_member_update refused id'
                    (\<lambda>m. m\<lparr>m_name := (case d_name data of
                                         None \<Rightarrow> m_name m
                                       | Some n \<Rightarrow> if n = '''' then m_name m else n),
                           m_email := set_column (d_email data) (m_email m),
                           m_phone := set_column (d_phone data) (m_phone m),
                           m_age := set_column (d_age data) (m_age m),
                           m_gender := set_column (d_gender data) (m_gender m),
                           m_address := set_column (d_address data) (m_address m),
                           m_cellId := set_column (d_cellId data) (m_cellId m),
                           m_isActive := (case d_isActive data of
                                            None \<Rightarrow> m_isActive m | Some b \<Rightarrow> b),
                           m_birthDate := (if d_birthDate data = Undefined then m_birthDate m
                                           else if truthy_field (d_birthDate data)
                                           then to_column (d_birthDate data) else None),
                           m_occupation := set_column (d_occupation data) (m_occupation m),
                           m_notes := set_column (d_notes data) (m_notes m)\<rparr>)
                    (members d) of
               Inl err \<Rightarrow> (Inl err, d)
             | Inr (member, rows) \<Rightarrow> (Inr (Some member), d\<lparr>members := rows\<rparr>)))"

text \<open>A payload with a name and nothing else.\<close>

definition only_name :: "string \<Rightarrow> member_data" where
  "only_name n =
     \<lparr>d_name = Some n, d_email = Undefined, d_phone = Undefined, d_age = Undefined,
      d_gender = Undefined, d_address = Undefined, d_cellId = Undefined,
      d_userId = Undefined, d_birthDate = Undefined, d_occupation = Undefined,
      d_notes = Undefined, d_isActive = None\<rparr>"

section \<open>Periodic contribution statistics\<close>

text \<open>
  A JavaScript \<open>Date\<close> as \<open>getPeriodicStats\<close> reads it: the instant (milliseconds since
  the epoch, which the database orders and filters by), \<open>getFullYear()\<close>,
  \<open>getMonth()\<close> (0 to 11) and the day part of \<open>toISOString()\<close>.
\<close>

record js_date =
  getTime :: int
  getFullYear :: int
  getMonth :: nat
  isoDay :: string

text \<open>
  A contribution row with the two columns selected. The amount is a JavaScript number;
  the statistics only add amounts and divide by a count, so any type with these
  operations stands for it and no law of arithmetic is assumed.
\<close>

record 'a contribution =
  c_date :: js_date
  c_amount :: 'a

text \<open>\<open>String(n)\<close> for an integer: its decimal digits, with a minus sign when negative.\<close>

fun digits_of :: "nat \<Rightarrow> string" where
  "digits_of n =
     (if n < 10 then [''0123456789'' ! n]
      else digits_of (n div 10) @ [''0123456789'' ! (n mod 10)])"

declare digits_of.simps [simp del]

definition String_of :: "int \<Rightarrow> string" where
  "String_of i = (if i < 0 then ''-'' @ digits_of (nat (- i)) else digits_of (nat i))"

text \<open>\<open>s.padStart(n, c)\<close> for a one-character pad.\<close>

definition padStart :: "nat \<Rightarrow> char \<Rightarrow> string \<Rightarrow> string" where
  "padStart n c s = replicate (n - length s) c @ s"

text \<open>The \<open>switch (groupBy)\<close> that computes \<open>periodKey\<close>.\<close>

definition periodKey :: "string \<Rightarrow> js_date \<Rightarrow> string" where
  "periodKey groupBy date =
     (if groupBy = ''month''
      then String_of (getFullYear date) @ ''-'' @
           padStart 2 (CHR ''0'') (String_of (int (getMonth date + 1)))
      else if groupBy = ''quarter''
      then (let quarter = getMonth date div 3 + 1
            in String_of (getFullYear date) @ ''-Q'' @ String_of (int quarter))
      else if groupBy = ''year'' then String_of (getFullYear date)
      else isoDay date)"

text \<open>
  The object \<open>groupedStats\<close>: its keys in the order they were first written, each with
  an amount and a count.
\<close>

record 'a period_stats =
  amount :: 'a
  count :: nat

type_synonym 'a grouped = "(string \<times> 'a period_stats) list"

text \<open>\<open>if (!groupedStats[periodKey]) groupedStats[periodKey] = {amount: 0, count: 0}\<close>.\<close>

definition ensure_period :: "string \<Rightarrow> ('a::zero) grouped \<Rightarrow> 'a grouped" where
  "ensure_period k g =
     (if map_of g k = None then g @ [(k, \<lparr>amount = 0, count = 0\<rparr>)] else g)"

text \<open>\<open>groupedStats[periodKey].amount += contrib.amount\<close> and \<open>.count += 1\<close>.\<close>

definition add_to_period :: "string \<Rightarrow> 'a \<Rightarrow> ('a::plus) grouped \<Rightarrow> 'a grouped" where
  "add_to_period k a g =
     map (\<lambda>(k', s). if k' = k then (k', s\<lparr>amount := amount s + a, count := count s + 1\<rparr>)
                     else (k', s)) g"

text \<open>The body of the \<open>forEach\<close>.\<close>

definition add_contribution ::
  "string \<Rightarrow> ('a::{zero,plus}) grouped \<Rightarrow> 'a contribution \<Rightarrow> 'a grouped" where
  "add_contribution groupBy g contrib =
     (let periodKey' = periodKey groupBy (c_date contrib)
      in add_to_period periodKey' (c_amount contrib) (ensure_period periodKey' g))"

text \<open>The number \<open>count\<close> as a JavaScript number: \<open>count\<close> additions of 1 to 0.\<close>

primrec number_of_count :: "nat \<Rightarrow> 'a::{zero,one,plus}" where
  "number_of_count 0 = 0"
| "number_of_count (Suc n) = number_of_count n + 1"

text \<open>An entry of the array returned.\<close>

record 'a period_row =
  period :: string
  totalAmount :: 'a
  count' :: nat
  averageAmount :: 'a

text \<open>
  The \<open>where\<close> object the caller builds: \<open>date.gte\<close> and \<open>date.lte\<close>, each present or
  absent.
\<close>

record date_where =
  date_gte :: "int option"
  date_lte :: "int option"

definition date_matches :: "date_where \<Rightarrow> 'a contribution \<Rightarrow> bool" where
  "date_matches w c =
     ((case date_gte w of None \<Rightarrow> True | Some t \<Rightarrow> t \<le> getTime (c_date c)) \<and>
      (case date_lte w of None \<Rightarrow> True | Some t \<Rightarrow> getTime (c_date c) \<le> t))"

text \<open>
  \<open>findMany({where, select, orderBy: {date: 'asc'}})\<close>: the matching contributions,
  oldest first.
\<close>

definition matching_contributions ::
  "date_where \<Rightarrow> 'a contribution list \<Rightarrow> 'a contribution list" where
  "matching_contributions w rows =
     sort_key (\<lambda>c. getTime (c_date c)) (filter (date_matches w) rows)"

text \<open>
  The order in which \<open>Object.entries\<close> lists the keys of an object: first the keys
  that are array indices, in ascending numeric order, then the other keys in the order
  they were written. An array index is the decimal form of a number below
  \<open>2\<^sup>3\<^sup>2 - 1\<close>, with no sign and no leading zero; the key of a year from 0 on is one,
  the other period keys are not.
\<close>

definition digit_value :: "char \<Rightarrow> nat option" where
  "digit_value c = map_of (zip ''0123456789'' [0, 1, 2, 3, 4, 5, 6, 7, 8, 9]) c"

definition array_index :: "string \<Rightarrow> nat option" where
  "array_index k =
     (if k = [] \<or> \<not> list_all (\<lambda>c. digit_value c \<noteq> None) k \<or>
         (hd k = CHR ''0'' \<and> k \<noteq> ''0'')
      then None
      else (let n = foldl (\<lambda>n c. 10 * n + the (digit_value c)) 0 k
            in if n < 4294967295 then Some n else None))"

definition Object_entries :: "(string \<times> 'b) list \<Rightarrow> (string \<times> 'b) list" where
  "Object_entries g =
     sort_key (\<lambda>(k, s). the (array_index k)) (filter (\<lambda>(k, s). array_index k \<noteq> None) g) @
     filter (\<lambda>(k, s). array_index k = None) g"

text \<open>\<open>ContributionController.getPeriodicStats\<close>.\<close>

definition getPeriodicStats ::
  "date_where \<Rightarrow> string \<Rightarrow> ('a::{zero,one,plus,inverse}) contribution list \<Rightarrow>
   'a period_row list" where
  "getPeriodicStats w groupBy rows =
     (let contributions = matching_contributions w rows;
          groupedStats = foldl (add_contribution groupBy) [] contributions
      in map (\<lambda>(period', stats).
                \<lparr>period = period', totalAmount = amount stats, count' = count stats,
                 averageAmount = amount stats / number_of_count (count stats)\<rparr>)
           (Object_entries groupedStats))"

text \<open>The contributions of a period, in the order they were added.\<close>

definition in_period :: "string \<Rightarrow> string \<Rightarrow> 'a contribution list \<Rightarrow> 'a contribution list" where
  "in_period groupBy k contributions =
     filter (\<lambda>c. periodKey groupBy (c_date c) = k) contributions"

section \<open>Properties of the authorization middleware\<close>

lemma authorize_next_iff:
  "authorize allowedRoles user = Next \<longleftrightarrow>
     (\<exists>u. user = Some u \<and> user_role u \<in> set (roles_of allowedRoles))"
  by (cases user) (auto simp: authorize_def)

lemma authorize_no_user:
  "authorize allowedRoles None = NextError (UnauthorizedError ''Authentication required'')"
  by (simp add: authorize_def)

lemma authorize_outside:
  "user_role u \<notin> set (roles_of allowedRoles) \<Longrightarrow>
   authorize allowedRoles (Some u) = NextError (ForbiddenError ''Insufficient permissions'')"
  by (simp add: authorize_def)

lemma delete_event_route_reached_iff:
  "(\<exists>u. delete_event_route a = Inr u) \<longleftrightarrow>
     (\<exists>u. a = Inr u \<and> user_role u = ''SUPER_ADMIN'')"
  by (cases a)
     (auto simp: delete_event_route_def authorize_def roles_of_def
           split: next_call.splits)

text \<open>
  Claim C4. \<open>authorize(allowedRoles)\<close> calls the next handler exactly when the request has
  a user whose role is in the allow-list; with no user it forwards an
  \<open>UnauthorizedError\<close> (status 401), with a user whose role is outside the list it
  forwards a \<open>ForbiddenError\<close> (status 403); and the handler of \<open>DELETE /events/:id\<close> is
  reached exactly for an authenticated user whose role is \<open>SUPER_ADMIN\<close>.
\<close>

theorem authorize_allow_list:
  "(authorize allowedRoles user = Next \<longleftrightarrow>
      (\<exists>u. user = Some u \<and> user_role u \<in> set (roles_of allowedRoles))) \<and>
   (user = None \<longrightarrow>
      (\<exists>e. authorize allowedRoles user = NextError e \<and> err_statusCode e = Some 401 \<and>
           e = UnauthorizedError ''Authentication required'')) \<and>
   (\<forall>u. user = Some u \<and> user_role u \<notin> set (roles_of allowedRoles) \<longrightarrow>
      (\<exists>e. authorize allowedRoles user = NextError e \<and> err_statusCode e = Some 403 \<and>
           e = ForbiddenError ''Insufficient permissions'')) \<and>
   ((\<exists>u. delete_event_route a = Inr u) \<longleftrightarrow>
      (\<exists>u. a = Inr u \<and> user_role u = ''SUPER_ADMIN''))"
proof (intro conjI)
  show "authorize allowedRoles user = Next \<longleftrightarrow>
      (\<exists>u. user = Some u \<and> user_role u \<in> set (roles_of allowedRoles))"
    by (rule authorize_next_iff)
  show "user = None \<longrightarrow>
      (\<exists>e. authorize allowedRoles user = NextError e \<and> err_statusCode e = Some 401 \<and>
           e = UnauthorizedError ''Authentication required'')"
    by (simp add: authorize_no_user UnauthorizedError_def CustomError_def)
  show "\<forall>u. user = Some u \<and> user_role u \<notin> set (roles_of allowedRoles) \<longrightarrow>
      (\<exists>e. authorize allowedRoles user = NextError e \<and> err_statusCode e = Some 403 \<and>
           e = ForbiddenError ''Insufficient permissions'')"
    by (simp add: authorize_outside ForbiddenError_def CustomError_def)
  show "(\<exists>u. delete_event_route a = Inr u) \<longleftrightarrow>
      (\<exists>u. a = Inr u \<and> user_role u = ''SUPER_ADMIN'')"
    by (rule delete_event_route_reached_iff)
qed

theorem authorize_allow_list_witness:
  "authorize (RoleList [''SUPER_ADMIN''])
     (Some \<lparr>user_id = ''u1'', user_email = ''a@b.c'', user_role = ''SUPER_ADMIN'',
            user_isActive = True\<rparr>) = Next \<and>
   authorize (RoleName ''admin'') None =
     NextError (UnauthorizedError ''Authentication required'') \<and>
   authorize (RoleList [''ADMIN'', ''SUPER_ADMIN''])
     (Some \<lparr>user_id = ''u2'', user_email = ''m@b.c'', user_role = ''MEMBER'',
            user_isActive = True\<rparr>) =
     NextError (ForbiddenError ''Insufficient permissions'') \<and>
   (\<exists>u. delete_event_route
     (Inr \<lparr>user_id = ''u1'', user_email = ''a@b.c'', user_role = ''SUPER_ADMIN'',
           user_isActive = True\<rparr>) = Inr u) \<and>
   \<not> (\<exists>u. delete_event_route
     (Inr \<lparr>user_id = ''u3'', user_email = ''d@b.c'', user_role = ''ADMIN'',
           user_isActive = True\<rparr>) = Inr u)"
  using
    authorize_allow_list [of "RoleList [''SUPER_ADMIN'']"
      "Some \<lparr>user_id = ''u1'', user_email = ''a@b.c'', user_role = ''SUPER_ADMIN'',
             user_isActive = True\<rparr>"
      "Inr \<lparr>user_id = ''u1'', user_email = ''a@b.c'', user_role = ''SUPER_ADMIN'',
            user_isActive = True\<rparr>"]
    authorize_allow_list [of "RoleName ''admin''" None
      "Inr \<lparr>user_id = ''u3'', user_email = ''d@b.c'', user_role = ''ADMIN'',
            user_isActive = True\<rparr>"]
    authorize_allow_list [of "RoleList [''ADMIN'', ''SUPER_ADMIN'']"
      "Some \<lparr>user_id = ''u2'', user_email = ''m@b.c'', user_role = ''MEMBER'',
             user_isActive = True\<rparr>"
      "Inl (UnauthorizedError ''No token provided'')"]
  by (simp add: roles_of_def)

section \<open>Properties of the error handler\<close>

lemma errorHandler_CustomError:
  "errorHandler dev (CustomError m sc) =
     Some \<lparr>res_status = status_or_500 (Some sc), res_success = False,
           res_message = message_or_default m, res_debug = dev\<rparr>"
  by (simp add: errorHandler_def CustomError_def)

lemma errorHandler_plain:
  "\<not> special_case err \<Longrightarrow>
   errorHandler dev err =
     Some \<lparr>res_status = status_or_500 (err_statusCode err), res_success = False,
           res_message = message_or_default (err_message err), res_debug = dev\<rparr>"
  by (simp add: errorHandler_def special_case_def)

lemma errorHandler_success_false:
  "errorHandler dev err = Some r \<Longrightarrow> res_success r = False"
  by (auto simp: errorHandler_def Let_def split: if_splits)

text \<open>
  Claim C3, as stated, fails: an error that carries no \<open>statusCode\<close> does not always
  yield 500. A Prisma unique-constraint error (\<open>name\<close>
  \<open>PrismaClientKnownRequestError\<close>, \<open>code\<close> \<open>P2002\<close>) has no \<open>statusCode\<close>, and the
  handler answers 409 with its own message in place of the error's.
\<close>

theorem errorHandler_no_statusCode_counterexample:
  "err_statusCode
     \<lparr>err_name = ''PrismaClientKnownRequestError'',
      err_message = ''Unique constraint failed'', err_statusCode = None,
      err_code = CodeStr ''P2002'', err_errors = None\<rparr> = None \<and>
   errorHandler False
     \<lparr>err_name = ''PrismaClientKnownRequestError'',
      err_message = ''Unique constraint failed'', err_statusCode = None,
      err_code = CodeStr ''P2002'', err_errors = None\<rparr> =
   Some \<lparr>res_status = 409, res_success = False,
         res_message = ''Duplicate field value entered'', res_debug = False\<rparr>"
  by (simp add: errorHandler_def ConflictError_def CustomError_def status_or_500_def
        message_or_default_def)

text \<open>
  Claim C3, amended. A \<open>ValidationError\<close> yields 400, an \<open>UnauthorizedError\<close> 401, a
  \<open>ForbiddenError\<close> 403, a \<open>NotFoundError\<close> 404 and a \<open>ConflictError\<close> 409; an error
  that carries no \<open>statusCode\<close> and has none of the names or codes the handler tests for
  yields 500; every response the handler sends has \<open>success\<close> false; and for these
  errors the body carries the error's message, or \<open>Internal Server Error\<close> when that
  message is empty.
\<close>

theorem errorHandler_status_by_kind:
  "errorHandler dev (ValidationError m) =
     Some \<lparr>res_status = 400, res_success = False,
           res_message = message_or_default m, res_debug = dev\<rparr> \<and>
   errorHandler dev (UnauthorizedError m) =
     Some \<lparr>res_status = 401, res_success = False,
           res_message = message_or_default m, res_debug = dev\<rparr> \<and>
   errorHandler dev (ForbiddenError m) =
     Some \<lparr>res_status = 403, res_success = False,
           res_message = message_or_default m, res_debug = dev\<rparr> \<and>
   errorHandler dev (NotFoundError m) =
     Some \<lparr>res_status = 404, res_success = False,
           res_message = message_or_default m, res_debug = dev\<rparr> \<and>
   errorHandler dev (ConflictError m) =
     Some \<lparr>res_status = 409, res_success = False,
           res_message = message_or_default m, res_debug = dev\<rparr> \<and>
   (\<not> special_case err \<and> err_statusCode err = None \<longrightarrow>
      errorHandler dev err =
        Some \<lparr>res_status = 500, res_success = False,
              res_message = message_or_default (err_message err), res_debug = dev\<rparr>) \<and>
   (\<forall>r. errorHandler dev err = Some r \<longrightarrow> res_success r = False) \<and>
   (m \<noteq> '''' \<longrightarrow> message_or_default m = m) \<and>
   (\<forall>s. s \<noteq> '''' \<longrightarrow> message_or_default s = s) \<and>
   message_or_default '''' = ''Internal Server Error'' \<and>
   errorHandler dev (ValidationError '''') =
     Some \<lparr>res_status = 400, res_success = False,
           res_message = ''Internal Server Error'', res_debug = dev\<rparr> \<and>
   (\<not> special_case err \<and> err_statusCode err = None \<and> err_message err = '''' \<longrightarrow>
      errorHandler dev err =
        Some \<lparr>res_status = 500, res_success = False,
              res_message = ''Internal Server Error'', res_debug = dev\<rparr>)"
proof (intro conjI)
  show "\<not> special_case err \<and> err_statusCode err = None \<longrightarrow>
      errorHandler dev err =
        Some \<lparr>res_status = 500, res_success = False,
              res_message = message_or_default (err_message err), res_debug = dev\<rparr>"
    by (simp add: errorHandler_plain status_or_500_def)
  show "\<forall>r. errorHandler dev err = Some r \<longrightarrow> res_success r = False"
    by (blast dest: errorHandler_success_false)
  show "m \<noteq> '''' \<longrightarrow> message_or_default m = m"
    by (simp add: message_or_default_def)
  show "\<forall>s. s \<noteq> '''' \<longrightarrow> message_or_default s = s"
    by (simp add: message_or_default_def)
  show "message_or_default '''' = ''Internal Server Error''"
    by (simp add: message_or_default_def)
  show "errorHandler dev (ValidationError '''') =
     Some \<lparr>res_status = 400, res_success = False,
           res_message = ''Internal Server Error'', res_debug = dev\<rparr>"
    by (simp add: ValidationError_def errorHandler_CustomError status_or_500_def
          message_or_default_def)
  show "\<not> special_case err \<and> err_statusCode err = None \<and> err_message err = '''' \<longrightarrow>
      errorHandler dev err =
        Some \<lparr>res_status = 500, res_success = False,
              res_message = ''Internal Server Error'', res_debug = dev\<rparr>"
    by (simp add: errorHandler_plain status_or_500_def message_or_default_def)
qed (simp_all add: ValidationError_def UnauthorizedError_def ForbiddenError_def
       NotFoundError_def ConflictError_def errorHandler_CustomError status_or_500_def)

theorem errorHandler_status_by_kind_witness:
  "errorHandler True (ConflictError ''Member with this email already exists'') =
     Some \<lparr>res_status = 409, res_success = False,
           res_message = ''Member with this email already exists'', res_debug = True\<rparr> \<and>
   errorHandler True
     \<lparr>err_name = ''TypeError'', err_message = ''x is not a function'',
      err_statusCode = None, err_code = CodeUndefined, err_errors = None\<rparr> =
     Some \<lparr>res_status = 500, res_success = False,
           res_message = ''x is not a function'', res_debug = True\<rparr> \<and>
   errorHandler False (NotFoundError '''') =
     Some \<lparr>res_status = 404, res_success = False,
           res_message = ''Internal Server Error'', res_debug = False\<rparr> \<and>
   errorHandler False
     \<lparr>err_name = ''Error'', err_message = '''',
      err_statusCode = None, err_code = CodeUndefined, err_errors = None\<rparr> =
     Some \<lparr>res_status = 500, res_success = False,
           res_message = ''Internal Server Error'', res_debug = False\<rparr>"
  using errorHandler_status_by_kind [of True "''Member with this email already exists''"
    "\<lparr>err_name = ''TypeError'', err_message = ''x is not a function'',
      err_statusCode = None, err_code = CodeUndefined, err_errors = None\<rparr>"]
    errorHandler_status_by_kind [of False "''''"
    "\<lparr>err_name = ''Error'', err_message = '''',
      err_statusCode = None, err_code = CodeUndefined, err_errors = None\<rparr>"]
  by (simp add: special_case_def)

section \<open>Properties of the age-group statistics\<close>








section \<open>Properties of the forgotten-password request\<close>

lemma forgotPassword_valid:
  "isEmail email \<Longrightarrow>
   fst (forgotPassword isEmail tok now d email) =
     Inr \<lparr>res_status = 200, res_success = True,
          res_message = ''If the email exists, a password reset link has been sent'',
          res_debug = False\<rparr>"
  by (simp add: forgotPassword_def Let_def split: option.split)

lemma forgotPassword_invalid:
  "\<not> isEmail email \<Longrightarrow>
   fst (forgotPassword isEmail tok now d email) =
     Inl (ApiError_errors 400 ''Validation failed'' [None])"
  by (simp add: forgotPassword_def)

text \<open>
  Claim C10. Two forgot-password requests that pass the validation of the route, one
  with the email of an existing user and one with an email of no user, get the same
  response: status 200 with the message
  \<open>If the email exists, a password reset link has been sent\<close>. More generally the
  response to a request is the same whatever the user table holds.
\<close>

theorem forgotPassword_hides_existence:
  assumes "isEmail email1" and "isEmail email2"
    and "\<exists>u \<in> set (users d1). u_email u = toLowerCase email1"
    and "\<forall>u \<in> set (users d2). u_email u \<noteq> toLowerCase email2"
  shows "fst (forgotPassword isEmail tok1 now1 d1 email1) =
         fst (forgotPassword isEmail tok2 now2 d2 email2) \<and>
         fst (forgotPassword isEmail tok1 now1 d1 email1) =
           Inr \<lparr>res_status = 200, res_success = True,
                res_message = ''If the email exists, a password reset link has been sent'',
                res_debug = False\<rparr> \<and>
         (\<forall>email d d'. fst (forgotPassword isEmail tok1 now1 d email) =
                       fst (forgotPassword isEmail tok2 now2 d' email))"
proof -
  have "\<forall>email d d'. fst (forgotPassword isEmail tok1 now1 d email) =
                       fst (forgotPassword isEmail tok2 now2 d' email)"
  proof (intro allI)
    fix email d d'
    show "fst (forgotPassword isEmail tok1 now1 d email) =
          fst (forgotPassword isEmail tok2 now2 d' email)"
      by (cases "isEmail email") (simp_all add: forgotPassword_valid forgotPassword_invalid)
  qed
  with assms(1,2) show ?thesis
    by (simp add: forgotPassword_valid)
qed

theorem forgotPassword_hides_existence_witness:
  "fst (forgotPassword (\<lambda>s. CHR ''@'' \<in> set s) ''t1'' 5
         (empty_db\<lparr>users := [\<lparr>u_id = ''u1'', u_email = ''ann@x.org'',
                               u_passwordResetToken = None,
                               u_passwordResetExpires = None\<rparr>]\<rparr>) ''Ann@x.org'') =
   fst (forgotPassword (\<lambda>s. CHR ''@'' \<in> set s) ''t2'' 9
         (empty_db\<lparr>users := [\<lparr>u_id = ''u1'', u_email = ''ann@x.org'',
                               u_passwordResetToken = None,
                               u_passwordResetExpires = None\<rparr>]\<rparr>) ''bob@x.org'')"
  using forgotPassword_hides_existence [of "\<lambda>s. CHR ''@'' \<in> set s" "''Ann@x.org''"
    "''bob@x.org''"
    "empty_db\<lparr>users := [\<lparr>u_id = ''u1'', u_email = ''ann@x.org'',
                          u_passwordResetToken = None, u_passwordResetExpires = None\<rparr>]\<rparr>"
    "empty_db\<lparr>users := [\<lparr>u_id = ''u1'', u_email = ''ann@x.org'',
                          u_passwordResetToken = None, u_passwordResetExpires = None\<rparr>]\<rparr>"
    "''t1''" 5 "''t2''" 9]
  by (simp add: toLowerCase_def lower_char_def empty_db_def)


section \<open>Properties of the list endpoints\<close>

lemma getMembers_where_isActive:
  "w_isActive (getMembers_where q) = Some (q_isActive q = Some ''true'')"
  by (cases "q_isActive q") (simp_all add: getMembers_where_def Let_def with_default_def)

lemma getMinistries_where_isActive:
  "w_isActive (getMinistries_where q) = Some (q_isActive q = Some ''true'')"
  by (cases "q_isActive q") (simp_all add: getMinistries_where_def Let_def with_default_def)

lemma findAll_where_isActive:
  "p_isActive params = Some b \<Longrightarrow> w_isActive (findAll_where params) = Some b"
  by (simp add: findAll_where_def Let_def)

lemma member_matches_isActive:
  "member_matches d w m \<Longrightarrow> w_isActive w = Some b \<Longrightarrow> m_isActive m = b"
  by (simp add: member_matches_def)

lemma ministry_matches_isActive:
  "ministry_matches w m \<Longrightarrow> w_isActive w = Some b \<Longrightarrow> min_isActive m = b"
  by (simp add: ministry_matches_def)

lemma findMany_holds:
  assumes "\<And>orderBy skip take' rows. set (window orderBy skip take' rows) \<subseteq> set rows"
    and "m \<in> set (findMany window p skip take' orderBy rows)"
  shows "p m"
  using assms(1) [of orderBy skip take' "filter p rows"] assms(2)
  by (auto simp: findMany_def)

text \<open>
  Claim C2 fails on the code. A list request without the \<open>isActive\<close> parameter gets the
  inactive records only: whatever ordering and paging the database applies, every
  member \<open>getMembers\<close> and \<open>getAll\<close> return and every ministry \<open>getMinistries\<close> returns
  has \<open>isActive\<close> false. The default \<open>isActive = true\<close> is the boolean, and
  \<open>isActive === 'true'\<close> compares it with a string.
\<close>

theorem list_default_returns_inactive:
  assumes "\<And>orderBy skip take' rows. set (window orderBy skip take' rows) \<subseteq> set rows"
    and "\<And>orderBy skip take' rows. set (window' orderBy skip take' rows) \<subseteq> set rows"
    and "q_isActive q = None"
  shows "(\<forall>m \<in> set (fst (getMembers window d q)). \<not> m_isActive m) \<and>
         (\<forall>m \<in> set (fst (getAll window d q)). \<not> m_isActive m) \<and>
         (\<forall>m \<in> set (fst (getMinistries window' d q)). \<not> min_isActive m)"
proof (intro conjI ballI)
  fix m assume "m \<in> set (fst (getMembers window d q))"
  then have "member_matches d (getMembers_where q) m"
    unfolding getMembers_def Let_def fst_conv by (rule findMany_holds [OF assms(1)])
  then show "\<not> m_isActive m"
    using member_matches_isActive [OF _ getMembers_where_isActive] assms(3) by fastforce
next
  fix m assume "m \<in> set (fst (getAll window d q))"
  then have "member_matches d (findAll_where
       \<lparr>p_skip = ((case q_page q of None \<Rightarrow> 1 | Some n \<Rightarrow> n) - 1) *
                  (case q_limit q of None \<Rightarrow> 10 | Some n \<Rightarrow> n),
        p_take = (case q_limit q of None \<Rightarrow> 10 | Some n \<Rightarrow> n), p_search = q_search q,
        p_cellId = q_cellId q, p_ministryId = q_ministryId q,
        p_isActive = Some (q_isActive q = Some ''true''),
        p_sortBy = Some (case q_sortBy q of None \<Rightarrow> ''createdAt'' | Some s \<Rightarrow> s),
        p_sortOrder = Some (case q_sortOrder q of None \<Rightarrow> ''desc'' | Some s \<Rightarrow> s)\<rparr>) m"
    unfolding getAll_def findAll_def Let_def fst_conv by (rule findMany_holds [OF assms(1)])
  then show "\<not> m_isActive m"
    using member_matches_isActive [OF _ findAll_where_isActive] assms(3) by fastforce
next
  fix m assume "m \<in> set (fst (getMinistries window' d q))"
  then have "ministry_matches (getMinistries_where q) m"
    unfolding getMinistries_def Let_def fst_conv by (rule findMany_holds [OF assms(2)])
  then show "\<not> min_isActive m"
    using ministry_matches_isActive [OF _ getMinistries_where_isActive] assms(3) by fastforce
qed

lemma plain_window_subset: "set (plain_window orderBy skip take' rows) \<subseteq> set rows"
  by (auto simp: plain_window_def dest: in_set_takeD in_set_dropD)

theorem list_default_returns_inactive_witness:
  "fst (getMembers plain_window
     (empty_db\<lparr>members := [mk_member ''ann'' None None True,
                           mk_member ''bob'' None None False],
               ministries := [mk_ministry ''choir'' True, mk_ministry ''ushers'' False]\<rparr>)
     no_query) = [mk_member ''bob'' None None False] \<and>
   fst (getAll plain_window
     (empty_db\<lparr>members := [mk_member ''ann'' None None True,
                           mk_member ''bob'' None None False],
               ministries := [mk_ministry ''choir'' True, mk_ministry ''ushers'' False]\<rparr>)
     no_query) = [mk_member ''bob'' None None False] \<and>
   fst (getMinistries plain_window
     (empty_db\<lparr>members := [mk_member ''ann'' None None True,
                           mk_member ''bob'' None None False],
               ministries := [mk_ministry ''choir'' True, mk_ministry ''ushers'' False]\<rparr>)
     no_query) = [mk_ministry ''ushers'' False]"
  using list_default_returns_inactive [of plain_window plain_window no_query
     "empty_db\<lparr>members := [mk_member ''ann'' None None True,
                           mk_member ''bob'' None None False],
               ministries := [mk_ministry ''choir'' True, mk_ministry ''ushers'' False]\<rparr>",
     OF plain_window_subset plain_window_subset]
  by (simp add: no_query_def getMembers_def getAll_def findAll_def getMinistries_def
        getMembers_where_def getMinistries_where_def findAll_where_def with_default_def
        where_empty_def truthy_def member_matches_def ministry_matches_def findMany_def
        plain_window_def empty_db_def mk_member_def mk_ministry_def Let_def)

section \<open>Properties of the delete operations\<close>

lemma countWhere_pos: "countWhere p rows > 0 \<longleftrightarrow> list_ex p rows"
  by (induction rows) (auto simp: countWhere_def)

lemma findFirst_None: "findFirst p rows = None \<longleftrightarrow> \<not> list_ex p rows"
  by (auto simp: findFirst_def find_None_iff list_ex_iff)

lemma findFirst_Some: "findFirst p rows = Some r \<Longrightarrow> p r \<and> r \<in> set rows"
  by (auto simp: findFirst_def find_Some_iff)

lemma list_ex_findFirst: "list_ex p rows \<Longrightarrow> \<exists>r. findFirst p rows = Some r"
  using findFirst_None [of p rows] by (cases "findFirst p rows") auto

lemma map_updateWhere_key:
  assumes "\<And>r. key (f r) = key r"
  shows "map key (updateWhere p f rows) = map key rows"
  by (induction rows) (simp_all add: updateWhere_def assms)

lemma updateWhere_all:
  assumes "\<And>r. p r \<Longrightarrow> q (f r)" and "\<And>r. p (f r) = p r"
  shows "\<forall>r \<in> set (updateWhere p f rows). p r \<longrightarrow> q r"
  using assms by (auto simp: updateWhere_def)

lemma filter_not_list_ex: "\<not> list_ex p (filter (\<lambda>r. \<not> p r) rows)"
  by (simp add: list_ex_iff)

lemma deleteEvent_soft:
  assumes "id' \<noteq> ''''" and "list_ex (\<lambda>e. ev_id e = id') (events d)"
    and "event_blocked d id'"
  shows "deleteEvent refused d id' =
     (Inr (ok_message ''Event deactivated successfully (has existing registrations/attendance)''),
      d\<lparr>events := updateWhere (\<lambda>e. ev_id e = id') (\<lambda>e. e\<lparr>ev_isActive := False\<rparr>) (events d)\<rparr>)"
proof -
  obtain ev where "findFirst (\<lambda>e. ev_id e = id') (events d) = Some ev"
    using list_ex_findFirst [OF assms(2)] by blast
  then show ?thesis
    using assms(1,3) by (simp add: deleteEvent_def Let_def countWhere_pos event_blocked_def)
qed

lemma deleteEvent_hard:
  assumes "id' \<noteq> ''''" and "list_ex (\<lambda>e. ev_id e = id') (events d)"
    and "\<not> event_blocked d id'" and "\<not> refused"
  shows "deleteEvent refused d id' =
     (Inr (ok_message ''Event deleted successfully''),
      d\<lparr>events := filter (\<lambda>e. \<not> ev_id e = id') (events d)\<rparr>)"
proof -
  obtain ev where "findFirst (\<lambda>e. ev_id e = id') (events d) = Some ev"
    using list_ex_findFirst [OF assms(2)] by blast
  then show ?thesis
    using assms
    by (simp add: deleteEvent_def Let_def countWhere_pos prisma_delete_def event_blocked_def)
qed

lemma deleteMember_soft:
  assumes "id' \<noteq> ''''" and "list_ex (\<lambda>m. m_id m = id') (members d)"
    and "member_blocked d id'"
  shows "deleteMember refused d id' =
     (Inr (ok_message ''Member deactivated successfully (has existing records)''),
      d\<lparr>members := updateWhere (\<lambda>m. m_id m = id') (\<lambda>m. m\<lparr>m_isActive := False\<rparr>) (members d)\<rparr>)"
proof -
  obtain m where "findFirst (\<lambda>m. m_id m = id') (members d) = Some m"
    using list_ex_findFirst [OF assms(2)] by blast
  then show ?thesis
    using assms(1,3) by (simp add: deleteMember_def Let_def countWhere_pos member_blocked_def)
qed

lemma deleteMember_hard:
  assumes "id' \<noteq> ''''" and "list_ex (\<lambda>m. m_id m = id') (members d)"
    and "\<not> member_blocked d id'" and "\<not> refused"
  shows "deleteMember refused d id' =
     (Inr (ok_message ''Member deleted successfully''),
      d\<lparr>members := filter (\<lambda>m. \<not> m_id m = id') (members d)\<rparr>)"
proof -
  obtain m where "findFirst (\<lambda>m. m_id m = id') (members d) = Some m"
    using list_ex_findFirst [OF assms(2)] by blast
  then show ?thesis
    using assms
    by (simp add: deleteMember_def Let_def countWhere_pos prisma_delete_def member_blocked_def)
qed

lemma deleteMinistry_refuses:
  assumes "id' \<noteq> ''''" and "list_ex (\<lambda>m. min_id m = id') (ministries d)"
    and "ministry_blocked d id'"
  shows "\<exists>message. deleteMinistry refused d id' = (Inl (ApiError 400 message), d)"
proof -
  obtain m where "findFirst (\<lambda>m. min_id m = id') (ministries d) = Some m"
    using list_ex_findFirst [OF assms(2)] by blast
  then show ?thesis
    using assms(1,3)
    by (auto simp: deleteMinistry_def Let_def countWhere_pos ministry_blocked_def)
qed

lemma deleteMinistry_hard:
  assumes "id' \<noteq> ''''" and "list_ex (\<lambda>m. min_id m = id') (ministries d)"
    and "\<not> ministry_blocked d id'" and "\<not> refused"
  shows "deleteMinistry refused d id' =
     (Inr (ok_message ''Ministry deleted successfully''),
      d\<lparr>ministries := filter (\<lambda>m. \<not> min_id m = id') (ministries d)\<rparr>)"
proof -
  obtain m where "findFirst (\<lambda>m. min_id m = id') (ministries d) = Some m"
    using list_ex_findFirst [OF assms(2)] by blast
  then show ?thesis
    using assms
    by (simp add: deleteMinistry_def Let_def countWhere_pos prisma_delete_def
          ministry_blocked_def)
qed

lemma deactivated_events:
  "\<forall>e \<in> set (updateWhere (\<lambda>e. ev_id e = id') (\<lambda>e. e\<lparr>ev_isActive := False\<rparr>) rows).
     ev_id e = id' \<longrightarrow> \<not> ev_isActive e"
  by (rule updateWhere_all) simp_all

lemma deactivated_members:
  "\<forall>m \<in> set (updateWhere (\<lambda>m. m_id m = id') (\<lambda>m. m\<lparr>m_isActive := False\<rparr>) rows).
     m_id m = id' \<longrightarrow> \<not> m_isActive m"
  by (rule updateWhere_all) simp_all

text \<open>
  Claim C1, as stated, fails for ministries: a ministry with an active member is not
  soft-deactivated. \<open>deleteMinistry\<close> answers 400 and the ministry stays as it was,
  active.
\<close>

theorem deleteMinistry_counterexample:
  "deleteMinistry False
     (empty_db\<lparr>ministries := [mk_ministry ''choir'' True],
               memberMinistries := [mk_membership ''r1'' ''ann'' ''choir'' True]\<rparr>)
     ''choir'' =
     (Inl (ApiError 400
        ''Cannot delete ministry with active members. Remove all members first.''),
      empty_db\<lparr>ministries := [mk_ministry ''choir'' True],
               memberMinistries := [mk_membership ''r1'' ''ann'' ''choir'' True]\<rparr>) \<and>
   min_isActive (mk_ministry ''choir'' True)"
  by (simp add: deleteMinistry_def findFirst_def countWhere_def empty_db_def mk_ministry_def
        mk_membership_def Let_def)

text \<open>
  Claim C1, amended. Deleting an event that has an active registration or an attendance
  record keeps every event row and sets \<open>isActive\<close> to false on the event; deleting an
  event with neither removes its row, unless the database refuses the deletion. The
  handler of \<open>DELETE /members/:id\<close> does the same for a member, the dependent records
  being the member's contributions and active ministry memberships. Deleting a ministry
  with an active member or an active event is answered with status 400 and changes
  nothing; a ministry with neither is removed, unless the database refuses.
\<close>

theorem delete_soft_or_hard:
  assumes "id' \<noteq> ''''"
  shows
  "(list_ex (\<lambda>e. ev_id e = id') (events d) \<and> event_blocked d id' \<longrightarrow>
      fst (deleteEvent refused d id') =
        Inr (ok_message
          ''Event deactivated successfully (has existing registrations/attendance)'') \<and>
      map ev_id (events (snd (deleteEvent refused d id'))) = map ev_id (events d) \<and>
      (\<forall>e \<in> set (events (snd (deleteEvent refused d id'))).
          ev_id e = id' \<longrightarrow> \<not> ev_isActive e)) \<and>
   (list_ex (\<lambda>e. ev_id e = id') (events d) \<and> \<not> event_blocked d id' \<and> \<not> refused \<longrightarrow>
      fst (deleteEvent refused d id') = Inr (ok_message ''Event deleted successfully'') \<and>
      events (snd (deleteEvent refused d id')) =
        filter (\<lambda>e. \<not> ev_id e = id') (events d) \<and>
      \<not> list_ex (\<lambda>e. ev_id e = id') (events (snd (deleteEvent refused d id')))) \<and>
   (list_ex (\<lambda>m. m_id m = id') (members d) \<and> member_blocked d id' \<longrightarrow>
      fst (deleteMember refused d id') =
        Inr (ok_message ''Member deactivated successfully (has existing records)'') \<and>
      map m_id (members (snd (deleteMember refused d id'))) = map m_id (members d) \<and>
      (\<forall>m \<in> set (members (snd (deleteMember refused d id'))).
          m_id m = id' \<longrightarrow> \<not> m_isActive m)) \<and>
   (list_ex (\<lambda>m. m_id m = id') (members d) \<and> \<not> member_blocked d id' \<and> \<not> refused \<longrightarrow>
      fst (deleteMember refused d id') = Inr (ok_message ''Member deleted successfully'') \<and>
      members (snd (deleteMember refused d id')) =
        filter (\<lambda>m. \<not> m_id m = id') (members d) \<and>
      \<not> list_ex (\<lambda>m. m_id m = id') (members (snd (deleteMember refused d id')))) \<and>
   (list_ex (\<lambda>m. min_id m = id') (ministries d) \<and> ministry_blocked d id' \<longrightarrow>
      (\<exists>message. deleteMinistry refused d id' = (Inl (ApiError 400 message), d))) \<and>
   (list_ex (\<lambda>m. min_id m = id') (ministries d) \<and> \<not> ministry_blocked d id' \<and>
    \<not> refused \<longrightarrow>
      fst (deleteMinistry refused d id') = Inr (ok_message ''Ministry deleted successfully'') \<and>
      ministries (snd (deleteMinistry refused d id')) =
        filter (\<lambda>m. \<not> min_id m = id') (ministries d) \<and>
      \<not> list_ex (\<lambda>m. min_id m = id') (ministries (snd (deleteMinistry refused d id'))))"
proof (intro conjI impI; elim conjE)
  assume "list_ex (\<lambda>e. ev_id e = id') (events d)" and "event_blocked d id'"
  note soft = deleteEvent_soft [OF assms this, of refused]
  show "fst (deleteEvent refused d id') =
        Inr (ok_message
          ''Event deactivated successfully (has existing registrations/attendance)'')"
    by (simp add: soft)
  show "map ev_id (events (snd (deleteEvent refused d id'))) = map ev_id (events d)"
    by (simp add: soft map_updateWhere_key)
  show "\<forall>e \<in> set (events (snd (deleteEvent refused d id'))).
          ev_id e = id' \<longrightarrow> \<not> ev_isActive e"
    by (simp add: soft deactivated_events deactivated_members)
next
  assume "list_ex (\<lambda>e. ev_id e = id') (events d)" and "\<not> event_blocked d id'"
    and "\<not> refused"
  note hard = deleteEvent_hard [OF assms this]
  show "fst (deleteEvent refused d id') = Inr (ok_message ''Event deleted successfully'')"
    by (simp add: hard)
  show "events (snd (deleteEvent refused d id')) =
        filter (\<lambda>e. \<not> ev_id e = id') (events d)"
    by (simp add: hard)
  show "\<not> list_ex (\<lambda>e. ev_id e = id') (events (snd (deleteEvent refused d id')))"
    by (simp add: hard filter_not_list_ex)
next
  assume "list_ex (\<lambda>m. m_id m = id') (members d)" and "member_blocked d id'"
  note soft = deleteMember_soft [OF assms this, of refused]
  show "fst (deleteMember refused d id') =
        Inr (ok_message ''Member deactivated successfully (has existing records)'')"
    by (simp add: soft)
  show "map m_id (members (snd (deleteMember refused d id'))) = map m_id (members d)"
    by (simp add: soft map_updateWhere_key)
  show "\<forall>m \<in> set (members (snd (deleteMember refused d id'))).
          m_id m = id' \<longrightarrow> \<not> m_isActive m"
    by (simp add: soft deactivated_events deactivated_members)
next
  assume "list_ex (\<lambda>m. m_id m = id') (members d)" and "\<not> member_blocked d id'"
    and "\<not> refused"
  note hard = deleteMember_hard [OF assms this]
  show "fst (deleteMember refused d id') = Inr (ok_message ''Member deleted successfully'')"
    by (simp add: hard)
  show "members (snd (deleteMember refused d id')) =
        filter (\<lambda>m. \<not> m_id m = id') (members d)"
    by (simp add: hard)
  show "\<not> list_ex (\<lambda>m. m_id m = id') (members (snd (deleteMember refused d id')))"
    by (simp add: hard filter_not_list_ex)
next
  assume "list_ex (\<lambda>m. min_id m = id') (ministries d)" and "ministry_blocked d id'"
  then show "\<exists>message. deleteMinistry refused d id' = (Inl (ApiError 400 message), d)"
    by (rule deleteMinistry_refuses [OF assms])
next
  assume "list_ex (\<lambda>m. min_id m = id') (ministries d)" and "\<not> ministry_blocked d id'"
    and "\<not> refused"
  note hard = deleteMinistry_hard [OF assms this]
  show "fst (deleteMinistry refused d id') = Inr (ok_message ''Ministry deleted successfully'')"
    by (simp add: hard)
  show "ministries (snd (deleteMinistry refused d id')) =
        filter (\<lambda>m. \<not> min_id m = id') (ministries d)"
    by (simp add: hard)
  show "\<not> list_ex (\<lambda>m. min_id m = id') (ministries (snd (deleteMinistry refused d id')))"
    by (simp add: hard filter_not_list_ex)
qed

theorem delete_soft_or_hard_witness:
  "fst (deleteEvent False
     (empty_db\<lparr>events := [mk_event ''e1'' None True],
               eventRegistrations := [mk_registration ''r1'' ''e1'' ''ann'' True]\<rparr>) ''e1'') =
     Inr (ok_message
       ''Event deactivated successfully (has existing registrations/attendance)'') \<and>
   events (snd (deleteEvent False
     (empty_db\<lparr>events := [mk_event ''e1'' None True],
               eventRegistrations := [mk_registration ''r1'' ''e1'' ''ann'' True]\<rparr>) ''e1'')) =
     [mk_event ''e1'' None False] \<and>
   events (snd (deleteEvent False
     (empty_db\<lparr>events := [mk_event ''e1'' None True, mk_event ''e2'' None True],
               eventRegistrations := [mk_registration ''r1'' ''e1'' ''ann'' False]\<rparr>) ''e1'')) =
     [mk_event ''e2'' None True] \<and>
   members (snd (deleteMember False
     (empty_db\<lparr>members := [mk_member ''ann'' None None True],
               memberMinistries := [mk_membership ''r1'' ''ann'' ''choir'' True]\<rparr>) ''ann'')) =
     [mk_member ''ann'' None None False] \<and>
   members (snd (deleteMember False
     (empty_db\<lparr>members := [mk_member ''ann'' None None True]\<rparr>) ''ann'')) = [] \<and>
   (\<exists>message. deleteMinistry False
     (empty_db\<lparr>ministries := [mk_ministry ''choir'' True],
               events := [(mk_event ''e1'' None True)\<lparr>ev_ministryId := Some ''choir''\<rparr>]\<rparr>)
     ''choir'' =
     (Inl (ApiError 400 message),
      empty_db\<lparr>ministries := [mk_ministry ''choir'' True],
               events := [(mk_event ''e1'' None True)\<lparr>ev_ministryId := Some ''choir''\<rparr>]\<rparr>)) \<and>
   ministries (snd (deleteMinistry False
     (empty_db\<lparr>ministries := [mk_ministry ''choir'' True]\<rparr>) ''choir'')) = []"
  using
    delete_soft_or_hard [of "''e1''"
     "empty_db\<lparr>events := [mk_event ''e1'' None True],
               eventRegistrations := [mk_registration ''r1'' ''e1'' ''ann'' True]\<rparr>" False]
    delete_soft_or_hard [of "''e1''"
     "empty_db\<lparr>events := [mk_event ''e1'' None True, mk_event ''e2'' None True],
               eventRegistrations := [mk_registration ''r1'' ''e1'' ''ann'' False]\<rparr>" False]
    delete_soft_or_hard [of "''ann''"
     "empty_db\<lparr>members := [mk_member ''ann'' None None True],
               memberMinistries := [mk_membership ''r1'' ''ann'' ''choir'' True]\<rparr>" False]
    delete_soft_or_hard [of "''ann''"
     "empty_db\<lparr>members := [mk_member ''ann'' None None True]\<rparr>" False]
    delete_soft_or_hard [of "''choir''"
     "empty_db\<lparr>ministries := [mk_ministry ''choir'' True],
               events := [(mk_event ''e1'' None True)\<lparr>ev_ministryId := Some ''choir''\<rparr>]\<rparr>"
     False]
    delete_soft_or_hard [of "''choir''"
     "empty_db\<lparr>ministries := [mk_ministry ''choir'' True]\<rparr>" False]
  by (simp add: event_blocked_def member_blocked_def ministry_blocked_def empty_db_def
        mk_event_def mk_registration_def mk_membership_def mk_member_def mk_ministry_def
        deleteEvent_def deleteMember_def deleteMinistry_def prisma_delete_def findFirst_def
        countWhere_def updateWhere_def Let_def)
lemma delete_member_service_rows:
  "members (snd (delete_member_service refused d id')) = members d \<or>
   members (snd (delete_member_service refused d id')) =
     filter (\<lambda>m. \<not> m_id m = id') (members d)"
  by (simp add: delete_member_service_def prisma_delete_def)

section \<open>Properties of ministry membership\<close>


































































section \<open>Properties of event registration\<close>

lemma countWhere_append:
  "countWhere p (rows @ [r]) = countWhere p rows + (if p r then 1 else 0)"
  by (simp add: countWhere_def)

lemma updateWhere_none: "\<forall>r \<in> set rows. \<not> p r \<Longrightarrow> updateWhere p f rows = rows"
  by (induction rows) (simp_all add: updateWhere_def)

lemma countWhere_Cons:
  "countWhere p (a # rows) = (if p a then 1 else 0) + countWhere p rows"
  by (simp add: countWhere_def)

lemma updateWhere_Cons:
  "updateWhere p f (a # rows) = (if p a then f a else a) # updateWhere p f rows"
  by (simp add: updateWhere_def)

lemma countWhere_update_unique:
  assumes "distinct (map key rows)" and "x \<in> set rows"
  shows "countWhere p (updateWhere (\<lambda>r. key r = key x) f rows) + (if p x then 1 else 0) =
         countWhere p rows + (if p (f x) then 1 else 0)"
  using assms
proof (induction rows)
  case Nil
  then show ?case by simp
next
  case (Cons a rows)
  show ?case
  proof (cases "a = x")
    case True
    have "\<forall>r \<in> set rows. \<not> key r = key x"
      using Cons.prems(1) True by (auto simp: image_iff)
    then have "updateWhere (\<lambda>r. key r = key x) f rows = rows"
      by (rule updateWhere_none)
    then show ?thesis
      using True by (simp add: countWhere_Cons updateWhere_Cons)
  next
    case False
    then have x: "x \<in> set rows" using Cons.prems(2) by simp
    then have "key a \<noteq> key x" using Cons.prems(1) by (auto simp: image_iff)
    moreover have "distinct (map key rows)" using Cons.prems(1) by simp
    ultimately show ?thesis
      using Cons.IH [OF _ x] by (simp add: countWhere_Cons updateWhere_Cons)
  qed
qed

lemma map_key_update: 
  "map er_id (updateWhere p (\<lambda>r. r\<lparr>er_isActive := b, er_notes := n r\<rparr>) rows) = map er_id rows"
  by (rule map_updateWhere_key) simp
lemma registerForEvent_cases:
  "snd (registerForEvent newId now d id' memberId notes) = d \<or>
   (\<exists>ev. findFirst (\<lambda>e. ev_id e = id' \<and> ev_isActive e) (events d) = Some ev \<and>
     \<not> (ev_maxAttendees ev \<noteq> None \<and> the (ev_maxAttendees ev) \<noteq> 0 \<and>
        int (active_registrations d id') \<ge> the (ev_maxAttendees ev)) \<and>
     ((\<exists>x. findFirst (\<lambda>r. er_eventId r = id' \<and> er_memberId r = memberId)
              (eventRegistrations d) = Some x \<and> \<not> er_isActive x \<and>
           snd (registerForEvent newId now d id' memberId notes) =
             d\<lparr>eventRegistrations :=
                 updateWhere (\<lambda>r. er_id r = er_id x)
                   (\<lambda>r. r\<lparr>er_isActive := True,
                          er_notes := (case notes of None \<Rightarrow> er_notes r | Some n \<Rightarrow> Some n)\<rparr>)
                   (eventRegistrations d)\<rparr>) \<or>
      (findFirst (\<lambda>r. er_eventId r = id' \<and> er_memberId r = memberId)
              (eventRegistrations d) = None \<and>
       snd (registerForEvent newId now d id' memberId notes) =
         d\<lparr>eventRegistrations := eventRegistrations d @
             [\<lparr>er_id = newId, er_eventId = id', er_memberId = memberId,
               er_notes = notes, er_isActive = True\<rparr>]\<rparr>)))"
proof (cases "id' = '''' \<or> memberId = ''''")
  case True
  then show ?thesis by (simp add: registerForEvent_def)
next
  case ids: False
  show ?thesis
  proof (cases "findFirst (\<lambda>e. ev_id e = id' \<and> ev_isActive e) (events d)")
    case None
    with ids show ?thesis by (simp add: registerForEvent_def)
  next
    case (Some ev)
    show ?thesis
    proof (cases "(ev_registrationRequired ev \<and> ev_registrationDeadline ev \<noteq> None \<and>
             now > the (ev_registrationDeadline ev)) \<or>
            (ev_maxAttendees ev \<noteq> None \<and> the (ev_maxAttendees ev) \<noteq> 0 \<and>
                  int (active_registrations d id') \<ge> the (ev_maxAttendees ev))")
      case True
      with ids Some show ?thesis by (auto simp: registerForEvent_def)
    next
      case open': False
      show ?thesis
      proof (cases "findFirst (\<lambda>m. m_id m = memberId) (members d)")
        case None
        with ids Some open' show ?thesis by (simp add: registerForEvent_def)
      next
        case member: (Some m)
        show ?thesis
        proof (cases "findFirst (\<lambda>r. er_eventId r = id' \<and> er_memberId r = memberId)
              (eventRegistrations d)")
          case None
          with ids Some open' member show ?thesis
            by (simp add: registerForEvent_def Let_def)
        next
          case existing: (Some x)
          with ids Some open' member show ?thesis
            by (simp add: registerForEvent_def Let_def)
        qed
      qed
    qed
  qed
qed
lemma distinct_key_eq:
  "distinct (map key rows) \<Longrightarrow> a \<in> set rows \<Longrightarrow> b \<in> set rows \<Longrightarrow> key a = key b \<Longrightarrow>
   a = b"
  by (auto simp: distinct_map dest: inj_onD)

lemma register_events_unchanged:
  "events (snd (registerForEvent newId now d id' memberId notes)) = events d"
  using registerForEvent_cases [of newId now d id' memberId "notes"] by auto

lemma register_keys:
  assumes "registration_keys d" and "newId \<notin> set (map er_id (eventRegistrations d))"
  shows "registration_keys (snd (registerForEvent newId now d id' memberId notes))"
  using registerForEvent_cases [of newId now d id' memberId "notes"] assms
  by (auto simp: registration_keys_def map_key_update)

lemma register_count_le:
  assumes keys: "registration_keys d"
    and fresh: "newId \<notin> set (map er_id (eventRegistrations d))"
    and e: "e \<in> set (events d)" "ev_maxAttendees e = Some m" "0 < m"
    and le: "int (active_registrations d (ev_id e)) \<le> m"
  shows "int (active_registrations
           (snd (registerForEvent newId now d id' memberId notes)) (ev_id e)) \<le> m"
proof -
  let ?p = "\<lambda>r. er_eventId r = ev_id e \<and> er_isActive r"
  let ?f = "\<lambda>r. r\<lparr>er_isActive := True,
                    er_notes := (case notes of None \<Rightarrow> er_notes r | Some n \<Rightarrow> Some n)\<rparr>"
  consider
    (same) "snd (registerForEvent newId now d id' memberId notes) = d"
  | (update) ev x where "findFirst (\<lambda>e. ev_id e = id' \<and> ev_isActive e) (events d) = Some ev"
      "\<not> (ev_maxAttendees ev \<noteq> None \<and> the (ev_maxAttendees ev) \<noteq> 0 \<and>
         int (active_registrations d id') \<ge> the (ev_maxAttendees ev))"
      "findFirst (\<lambda>r. er_eventId r = id' \<and> er_memberId r = memberId)
         (eventRegistrations d) = Some x" "\<not> er_isActive x"
      "snd (registerForEvent newId now d id' memberId notes) =
         d\<lparr>eventRegistrations :=
             updateWhere (\<lambda>r. er_id r = er_id x) ?f (eventRegistrations d)\<rparr>"
  | (create) ev where "findFirst (\<lambda>e. ev_id e = id' \<and> ev_isActive e) (events d) = Some ev"
      "\<not> (ev_maxAttendees ev \<noteq> None \<and> the (ev_maxAttendees ev) \<noteq> 0 \<and>
         int (active_registrations d id') \<ge> the (ev_maxAttendees ev))"
      "snd (registerForEvent newId now d id' memberId notes) =
         d\<lparr>eventRegistrations := eventRegistrations d @
             [\<lparr>er_id = newId, er_eventId = id', er_memberId = memberId,
               er_notes = notes, er_isActive = True\<rparr>]\<rparr>"
    using registerForEvent_cases [of newId now d id' memberId "notes"] by blast
  then show ?thesis
  proof cases
    case same
    with le show ?thesis by simp
  next
    case update
    have room: "id' = ev_id e \<Longrightarrow> int (active_registrations d (ev_id e)) < m"
    proof -
      assume eq: "id' = ev_id e"
      have "ev \<in> set (events d)" "ev_id ev = id'"
        using findFirst_Some [OF update(1)] by simp_all
      then have "ev = e"
        using distinct_key_eq [of ev_id "events d" ev e] keys e(1) eq
        by (simp add: registration_keys_def)
      with update(2) e(2,3) eq show ?thesis by simp
    qed
    have x: "x \<in> set (eventRegistrations d)" "er_eventId x = id'"
      using findFirst_Some [OF update(3)] by simp_all
    have "countWhere ?p (updateWhere (\<lambda>r. er_id r = er_id x) ?f (eventRegistrations d)) +
            (if ?p x then 1 else 0) =
          countWhere ?p (eventRegistrations d) + (if ?p (?f x) then 1 else 0)"
      using keys x(1) by (intro countWhere_update_unique) (simp add: registration_keys_def)
    then have "active_registrations (snd (registerForEvent newId now d id' memberId notes))
                 (ev_id e) =
               active_registrations d (ev_id e) + (if id' = ev_id e then 1 else 0)"
      using update(4) x(2) by (simp add: active_registrations_def update(5))
    with room le show ?thesis by (simp split: if_splits)
  next
    case create
    have room: "id' = ev_id e \<Longrightarrow> int (active_registrations d (ev_id e)) < m"
    proof -
      assume eq: "id' = ev_id e"
      have "ev \<in> set (events d)" "ev_id ev = id'"
        using findFirst_Some [OF create(1)] by simp_all
      then have "ev = e"
        using distinct_key_eq [of ev_id "events d" ev e] keys e(1) eq
        by (simp add: registration_keys_def)
      with create(2) e(2,3) eq show ?thesis by simp
    qed
    have "active_registrations (snd (registerForEvent newId now d id' memberId notes))
                 (ev_id e) =
               active_registrations d (ev_id e) + (if id' = ev_id e then 1 else 0)"
      by (simp add: active_registrations_def create(3) countWhere_append)
    with room le show ?thesis by (simp split: if_splits)
  qed
qed
lemma register_full:
  assumes keys: "registration_keys d"
    and e: "e \<in> set (events d)" "ev_maxAttendees e = Some m" "0 < m"
    and full: "m \<le> int (active_registrations d (ev_id e))"
  shows "snd (registerForEvent newId now d (ev_id e) memberId notes) = d"
    and "\<exists>err. fst (registerForEvent newId now d (ev_id e) memberId notes) = Inl err"
    and "ev_id e \<noteq> '''' \<Longrightarrow> memberId \<noteq> '''' \<Longrightarrow> ev_isActive e \<Longrightarrow>
         \<not> (ev_registrationRequired e \<and> ev_registrationDeadline e \<noteq> None \<and>
            now > the (ev_registrationDeadline e)) \<Longrightarrow>
         fst (registerForEvent newId now d (ev_id e) memberId notes) =
           Inl (ApiError 400 ''Event is full'')"
proof -
  have found: "findFirst (\<lambda>x. ev_id x = ev_id e \<and> ev_isActive x) (events d) = Some ev \<Longrightarrow>
               ev = e" for ev
  proof -
    assume "findFirst (\<lambda>x. ev_id x = ev_id e \<and> ev_isActive x) (events d) = Some ev"
    then have "ev \<in> set (events d)" "ev_id ev = ev_id e"
      using findFirst_Some [of "\<lambda>x. ev_id x = ev_id e \<and> ev_isActive x" "events d" ev]
      by simp_all
    then show "ev = e"
      using distinct_key_eq [of ev_id "events d" ev e] keys e(1)
      by (simp add: registration_keys_def)
  qed
  show "snd (registerForEvent newId now d (ev_id e) memberId notes) = d"
  proof (cases "findFirst (\<lambda>x. ev_id x = ev_id e \<and> ev_isActive x) (events d)")
    case None
    then show ?thesis by (simp add: registerForEvent_def)
  next
    case (Some ev)
    with found have "ev = e" by simp
    with Some e(2,3) full show ?thesis by (simp add: registerForEvent_def)
  qed
  show "\<exists>err. fst (registerForEvent newId now d (ev_id e) memberId notes) = Inl err"
  proof (cases "findFirst (\<lambda>x. ev_id x = ev_id e \<and> ev_isActive x) (events d)")
    case None
    then show ?thesis by (simp add: registerForEvent_def)
  next
    case (Some ev)
    with found have "ev = e" by simp
    with Some e(2,3) full show ?thesis by (simp add: registerForEvent_def)
  qed
  show "fst (registerForEvent newId now d (ev_id e) memberId notes) =
           Inl (ApiError 400 ''Event is full'')"
    if "ev_id e \<noteq> ''''" "memberId \<noteq> ''''" "ev_isActive e"
       "\<not> (ev_registrationRequired e \<and> ev_registrationDeadline e \<noteq> None \<and>
            now > the (ev_registrationDeadline e))"
  proof -
    have "list_ex (\<lambda>x. ev_id x = ev_id e \<and> ev_isActive x) (events d)"
      using e(1) that(3) by (auto simp: list_ex_iff)
    then obtain ev
      where ev: "findFirst (\<lambda>x. ev_id x = ev_id e \<and> ev_isActive x) (events d) = Some ev"
      using list_ex_findFirst by blast
    with found have "ev = e" by simp
    with ev e(2,3) full that show ?thesis by (auto simp: registerForEvent_def)
  qed
qed

lemma run_count_le:
  assumes "registration_keys d" and "fresh_ids d rqs"
    and "e \<in> set (events d)" and "ev_maxAttendees e = Some m" and "0 < m"
    and "int (active_registrations d (ev_id e)) \<le> m"
  shows "int (active_registrations (run_registrations d rqs) (ev_id e)) \<le> m"
  using assms
proof (induction rqs arbitrary: d)
  case Nil
  then show ?case by simp
next
  case (Cons rq rqs)
  have fresh: "rq_newId rq \<notin> set (map er_id (eventRegistrations d))"
    and rest: "fresh_ids (register_step d rq) rqs"
    using Cons.prems(2) by simp_all
  have "registration_keys (register_step d rq)"
    unfolding register_step_def by (rule register_keys [OF Cons.prems(1) fresh])
  moreover have "e \<in> set (events (register_step d rq))"
    unfolding register_step_def register_events_unchanged by (rule Cons.prems(3))
  moreover have "int (active_registrations (register_step d rq) (ev_id e)) \<le> m"
    unfolding register_step_def
    by (rule register_count_le [OF Cons.prems(1) fresh Cons.prems(3,4,5,6)])
  ultimately show ?case
    using Cons.IH [OF _ rest _ Cons.prems(4,5)] by simp
qed

text \<open>
  Claim C8, as stated, fails: a request on a full event does not always get status 400
  with \<open>Event is full\<close>. The event below has \<open>maxAttendees\<close> 1 and one active
  registration, and it is inactive; the handler looks the event up with
  \<open>isActive: true\<close> first and answers 404.
\<close>

theorem registerForEvent_full_counterexample:
  "ev_maxAttendees (mk_event ''e1'' (Some 1) False) = Some 1 \<and>
   int (active_registrations
     (empty_db\<lparr>members := [mk_member ''ann'' None None True, mk_member ''bob'' None None True],
               events := [mk_event ''e1'' (Some 1) False],
               eventRegistrations := [mk_registration ''r1'' ''e1'' ''ann'' True]\<rparr>) ''e1'') \<ge> 1 \<and>
   fst (registerForEvent ''r2'' 0
     (empty_db\<lparr>members := [mk_member ''ann'' None None True, mk_member ''bob'' None None True],
               events := [mk_event ''e1'' (Some 1) False],
               eventRegistrations := [mk_registration ''r1'' ''e1'' ''ann'' True]\<rparr>)
     ''e1'' ''bob'' None) = Inl (ApiError 404 ''Event not found or inactive'')"
  by (simp add: registerForEvent_def active_registrations_def countWhere_def findFirst_def
        empty_db_def mk_event_def mk_registration_def)

lemma register_inactive:
  assumes keys: "registration_keys d" and e: "e \<in> set (events d)"
    and "\<not> ev_isActive e" and "ev_id e \<noteq> ''''" and "memberId \<noteq> ''''"
  shows "registerForEvent newId now d (ev_id e) memberId notes =
           (Inl (ApiError 404 ''Event not found or inactive''), d)"
proof -
  have "\<not> list_ex (\<lambda>x. ev_id x = ev_id e \<and> ev_isActive x) (events d)"
  proof
    assume "list_ex (\<lambda>x. ev_id x = ev_id e \<and> ev_isActive x) (events d)"
    then obtain x where x: "x \<in> set (events d)" "ev_id x = ev_id e" "ev_isActive x"
      by (auto simp: list_ex_iff)
    then have "x = e"
      using distinct_key_eq [of ev_id "events d" x e] keys e
      by (simp add: registration_keys_def)
    with x(3) assms(3) show False by simp
  qed
  then have "findFirst (\<lambda>x. ev_id x = ev_id e \<and> ev_isActive x) (events d) = None"
    by (simp add: findFirst_None)
  then show ?thesis
    using assms(4,5) by (simp add: registerForEvent_def)
qed

lemma register_deadline:
  assumes keys: "registration_keys d" and e: "e \<in> set (events d)"
    and "ev_isActive e" and "ev_id e \<noteq> ''''" and "memberId \<noteq> ''''"
    and "ev_registrationRequired e" and "ev_registrationDeadline e = Some t" and "t < now"
  shows "registerForEvent newId now d (ev_id e) memberId notes =
           (Inl (ApiError 400 ''Registration deadline has passed''), d)"
proof -
  have "list_ex (\<lambda>x. ev_id x = ev_id e \<and> ev_isActive x) (events d)"
    using e assms(3) by (auto simp: list_ex_iff)
  then obtain ev
    where ev: "findFirst (\<lambda>x. ev_id x = ev_id e \<and> ev_isActive x) (events d) = Some ev"
    using list_ex_findFirst by blast
  then have "ev \<in> set (events d)" "ev_id ev = ev_id e"
    using findFirst_Some [of "\<lambda>x. ev_id x = ev_id e \<and> ev_isActive x" "events d" ev]
    by simp_all
  then have "ev = e"
    using distinct_key_eq [of ev_id "events d" ev e] keys e
    by (simp add: registration_keys_def)
  with ev assms(4-8) show ?thesis by (simp add: registerForEvent_def)
qed

text \<open>
  Claim C8, amended. Take an event whose \<open>maxAttendees\<close> is set, to a positive number
  as the routes require, in a database where ids are keys. A registration request on
  the event while its active registrations are at least \<open>maxAttendees\<close> fails and
  changes nothing, so no registration row is created or reactivated; the failure is
  status 400 with \<open>Event is full\<close> when the request names the event and a member, the
  event is active and its registration deadline has not passed. The earlier checks
  answer otherwise, full or not, and change nothing either: a request that names both
  ids gets 404 with \<open>Event not found or inactive\<close> when the event is inactive and 400
  with \<open>Registration deadline has passed\<close> when the event is active, requires
  registration and its deadline has passed; a request that lacks an id gets 400 with
  \<open>Event ID and Member ID are required\<close>. Consequently a run of registration requests,
  one after the other, that starts with at most \<open>maxAttendees\<close> active registrations
  of the event ends with at most \<open>maxAttendees\<close>.
\<close>

theorem registerForEvent_capacity:
  assumes "registration_keys d"
    and "e \<in> set (events d)" and "ev_maxAttendees e = Some m" and "0 < m"
  shows
  "(m \<le> int (active_registrations d (ev_id e)) \<longrightarrow>
      snd (registerForEvent newId now d (ev_id e) memberId notes) = d \<and>
      (\<exists>err. fst (registerForEvent newId now d (ev_id e) memberId notes) = Inl err) \<and>
      (ev_id e \<noteq> '''' \<and> memberId \<noteq> '''' \<and> ev_isActive e \<and>
       \<not> (ev_registrationRequired e \<and> ev_registrationDeadline e \<noteq> None \<and>
          now > the (ev_registrationDeadline e)) \<longrightarrow>
         fst (registerForEvent newId now d (ev_id e) memberId notes) =
           Inl (ApiError 400 ''Event is full'') \<and>
         err_statusCode (ApiError 400 ''Event is full'') = Some 400)) \<and>
   (fresh_ids d rqs \<and> int (active_registrations d (ev_id e)) \<le> m \<longrightarrow>
      int (active_registrations (run_registrations d rqs) (ev_id e)) \<le> m) \<and>
   (ev_id e \<noteq> '''' \<and> memberId \<noteq> '''' \<and> \<not> ev_isActive e \<longrightarrow>
      registerForEvent newId now d (ev_id e) memberId notes =
        (Inl (ApiError 404 ''Event not found or inactive''), d) \<and>
      err_statusCode (ApiError 404 ''Event not found or inactive'') = Some 404) \<and>
   (ev_id e \<noteq> '''' \<and> memberId \<noteq> '''' \<and> ev_isActive e \<and>
    ev_registrationRequired e \<and> ev_registrationDeadline e \<noteq> None \<and>
    now > the (ev_registrationDeadline e) \<longrightarrow>
      registerForEvent newId now d (ev_id e) memberId notes =
        (Inl (ApiError 400 ''Registration deadline has passed''), d) \<and>
      err_statusCode (ApiError 400 ''Registration deadline has passed'') = Some 400) \<and>
   (ev_id e = '''' \<or> memberId = '''' \<longrightarrow>
      registerForEvent newId now d (ev_id e) memberId notes =
        (Inl (ApiError 400 ''Event ID and Member ID are required''), d))"
proof (intro conjI impI; (elim conjE)?)
  assume full: "m \<le> int (active_registrations d (ev_id e))"
  show "snd (registerForEvent newId now d (ev_id e) memberId notes) = d"
    by (rule register_full(1) [OF assms full])
  show "\<exists>err. fst (registerForEvent newId now d (ev_id e) memberId notes) = Inl err"
    by (rule register_full(2) [OF assms full])
next
  assume full: "m \<le> int (active_registrations d (ev_id e))"
    and "ev_id e \<noteq> ''''" "memberId \<noteq> ''''" "ev_isActive e"
    "\<not> (ev_registrationRequired e \<and> ev_registrationDeadline e \<noteq> None \<and>
          now > the (ev_registrationDeadline e))"
  then show "fst (registerForEvent newId now d (ev_id e) memberId notes) =
           Inl (ApiError 400 ''Event is full'')"
    by (rule register_full(3) [OF assms])
next
  show "err_statusCode (ApiError 400 ''Event is full'') = Some 400"
    by (simp add: ApiError_def)
next
  assume "fresh_ids d rqs" and "int (active_registrations d (ev_id e)) \<le> m"
  then show "int (active_registrations (run_registrations d rqs) (ev_id e)) \<le> m"
    using assms run_count_le by blast
next
  assume "ev_id e \<noteq> ''''" "memberId \<noteq> ''''" "\<not> ev_isActive e"
  then show "registerForEvent newId now d (ev_id e) memberId notes =
        (Inl (ApiError 404 ''Event not found or inactive''), d)"
    using register_inactive [OF assms(1,2)] by blast
next
  show "err_statusCode (ApiError 404 ''Event not found or inactive'') = Some 404"
    by (simp add: ApiError_def)
next
  assume a: "ev_id e \<noteq> ''''" "memberId \<noteq> ''''" "ev_isActive e"
    "ev_registrationRequired e" "ev_registrationDeadline e \<noteq> None"
    "now > the (ev_registrationDeadline e)"
  then obtain t where "ev_registrationDeadline e = Some t" "t < now" by auto
  with a show "registerForEvent newId now d (ev_id e) memberId notes =
        (Inl (ApiError 400 ''Registration deadline has passed''), d)"
    using register_deadline [OF assms(1,2)] by blast
next
  show "err_statusCode (ApiError 400 ''Registration deadline has passed'') = Some 400"
    by (simp add: ApiError_def)
next
  assume "ev_id e = '''' \<or> memberId = ''''"
  then show "registerForEvent newId now d (ev_id e) memberId notes =
        (Inl (ApiError 400 ''Event ID and Member ID are required''), d)"
    by (simp add: registerForEvent_def)
qed

theorem registerForEvent_capacity_witness:
  "registerForEvent ''r2'' 0
     (empty_db\<lparr>members := [mk_member ''ann'' None None True, mk_member ''bob'' None None True],
               events := [mk_event ''e1'' (Some 1) True],
               eventRegistrations := [mk_registration ''r1'' ''e1'' ''ann'' True]\<rparr>)
     ''e1'' ''bob'' None =
     (Inl (ApiError 400 ''Event is full''),
      empty_db\<lparr>members := [mk_member ''ann'' None None True, mk_member ''bob'' None None True],
               events := [mk_event ''e1'' (Some 1) True],
               eventRegistrations := [mk_registration ''r1'' ''e1'' ''ann'' True]\<rparr>) \<and>
   active_registrations (run_registrations
     (empty_db\<lparr>members := [mk_member ''ann'' None None True, mk_member ''bob'' None None True],
               events := [mk_event ''e1'' (Some 1) True]\<rparr>)
     [\<lparr>rq_newId = ''r1'', rq_now = 0, rq_id = ''e1'', rq_memberId = ''ann'', rq_notes = None\<rparr>,
      \<lparr>rq_newId = ''r2'', rq_now = 1, rq_id = ''e1'', rq_memberId = ''bob'', rq_notes = None\<rparr>])
     ''e1'' = 1 \<and>
   registerForEvent ''r2'' 0
     (empty_db\<lparr>members := [mk_member ''ann'' None None True, mk_member ''bob'' None None True],
               events := [mk_event ''e1'' (Some 1) False],
               eventRegistrations := [mk_registration ''r1'' ''e1'' ''ann'' True]\<rparr>)
     ''e1'' ''bob'' None =
     (Inl (ApiError 404 ''Event not found or inactive''),
      empty_db\<lparr>members := [mk_member ''ann'' None None True, mk_member ''bob'' None None True],
               events := [mk_event ''e1'' (Some 1) False],
               eventRegistrations := [mk_registration ''r1'' ''e1'' ''ann'' True]\<rparr>) \<and>
   registerForEvent ''r2'' 9
     (empty_db\<lparr>members := [mk_member ''ann'' None None True, mk_member ''bob'' None None True],
               events := [(mk_event ''e1'' (Some 1) True)
                            \<lparr>ev_registrationRequired := True,
                             ev_registrationDeadline := Some 5\<rparr>],
               eventRegistrations := [mk_registration ''r1'' ''e1'' ''ann'' True]\<rparr>)
     ''e1'' ''bob'' None =
     (Inl (ApiError 400 ''Registration deadline has passed''),
      empty_db\<lparr>members := [mk_member ''ann'' None None True, mk_member ''bob'' None None True],
               events := [(mk_event ''e1'' (Some 1) True)
                            \<lparr>ev_registrationRequired := True,
                             ev_registrationDeadline := Some 5\<rparr>],
               eventRegistrations := [mk_registration ''r1'' ''e1'' ''ann'' True]\<rparr>)"
proof -
  let ?full = "empty_db\<lparr>members := [mk_member ''ann'' None None True,
                                       mk_member ''bob'' None None True],
               events := [mk_event ''e1'' (Some 1) True],
               eventRegistrations := [mk_registration ''r1'' ''e1'' ''ann'' True]\<rparr>"
  let ?off = "empty_db\<lparr>members := [mk_member ''ann'' None None True,
                                      mk_member ''bob'' None None True],
               events := [mk_event ''e1'' (Some 1) False],
               eventRegistrations := [mk_registration ''r1'' ''e1'' ''ann'' True]\<rparr>"
  let ?late = "empty_db\<lparr>members := [mk_member ''ann'' None None True,
                                       mk_member ''bob'' None None True],
               events := [(mk_event ''e1'' (Some 1) True)
                            \<lparr>ev_registrationRequired := True,
                             ev_registrationDeadline := Some 5\<rparr>],
               eventRegistrations := [mk_registration ''r1'' ''e1'' ''ann'' True]\<rparr>"
  let ?start = "empty_db\<lparr>members := [mk_member ''ann'' None None True,
                                        mk_member ''bob'' None None True],
               events := [mk_event ''e1'' (Some 1) True]\<rparr>"
  let ?rqs = "[\<lparr>rq_newId = ''r1'', rq_now = 0, rq_id = ''e1'', rq_memberId = ''ann'',
                 rq_notes = None\<rparr>,
               \<lparr>rq_newId = ''r2'', rq_now = 1, rq_id = ''e1'', rq_memberId = ''bob'',
                 rq_notes = None\<rparr>]"
  have k1: "registration_keys ?full"
    by (simp add: registration_keys_def empty_db_def)
  have k2: "registration_keys ?start"
    by (simp add: registration_keys_def empty_db_def)
  have k3: "registration_keys ?off"
    by (simp add: registration_keys_def empty_db_def)
  have k4: "registration_keys ?late"
    by (simp add: registration_keys_def empty_db_def)
  have e1: "mk_event ''e1'' (Some 1) True \<in> set (events ?full)"
    by (simp add: empty_db_def)
  have e2: "mk_event ''e1'' (Some 1) True \<in> set (events ?start)"
    by (simp add: empty_db_def)
  have e3: "mk_event ''e1'' (Some 1) False \<in> set (events ?off)"
    by (simp add: empty_db_def)
  have e4: "(mk_event ''e1'' (Some 1) True)
              \<lparr>ev_registrationRequired := True, ev_registrationDeadline := Some 5\<rparr>
            \<in> set (events ?late)"
    by (simp add: empty_db_def)
  have m: "ev_maxAttendees (mk_event ''e1'' (Some 1) True) = Some 1" "(0::int) < 1"
    by (simp_all add: mk_event_def)
  have m3: "ev_maxAttendees (mk_event ''e1'' (Some 1) False) = Some 1"
    by (simp add: mk_event_def)
  have m4: "ev_maxAttendees ((mk_event ''e1'' (Some 1) True)
              \<lparr>ev_registrationRequired := True, ev_registrationDeadline := Some 5\<rparr>) = Some 1"
    by (simp add: mk_event_def)
  have full: "1 \<le> int (active_registrations ?full (ev_id (mk_event ''e1'' (Some 1) True)))"
    by (simp add: active_registrations_def countWhere_def empty_db_def mk_event_def
          mk_registration_def)
  have fresh: "fresh_ids ?start ?rqs"
    by (simp add: register_step_def registerForEvent_def active_registrations_def
          countWhere_def findFirst_def empty_db_def mk_event_def mk_member_def Let_def)
  have start: "int (active_registrations ?start (ev_id (mk_event ''e1'' (Some 1) True))) \<le> 1"
    by (simp add: active_registrations_def countWhere_def empty_db_def)
  have run: "active_registrations (run_registrations ?start ?rqs) ''e1'' = 1"
    by (simp add: register_step_def registerForEvent_def active_registrations_def
          countWhere_def findFirst_def empty_db_def mk_event_def mk_member_def Let_def)
  from registerForEvent_capacity [OF k1 e1 m, of "''r2''" 0 "''bob''" None ?rqs] full
    registerForEvent_capacity [OF k2 e2 m, of "''r2''" 0 "''bob''" None ?rqs] fresh start run
    registerForEvent_capacity [OF k3 e3 m3 m(2), of "''r2''" 0 "''bob''" None ?rqs]
    registerForEvent_capacity [OF k4 e4 m4 m(2), of "''r2''" 9 "''bob''" None ?rqs]
  show ?thesis
    by (simp add: mk_event_def prod_eq_iff)
qed

section \<open>Properties of member creation and update\<close>

lemma findFirst_not_None: "findFirst p rows \<noteq> None \<longleftrightarrow> list_ex p rows"
  using findFirst_None [of p rows] by simp

lemma email_given:
  "d_email data = Val e \<Longrightarrow> e \<noteq> [] \<Longrightarrow>
   truthy_field (d_email data) \<and> to_column (d_email data) = Some e"
  by (simp add: truthy_field_def to_column_def)

lemma create_duplicate:
  assumes "d_email data = Val e" and "e \<noteq> []"
    and "list_ex (\<lambda>m. m_email m = Some e) (members d)"
  shows "create refused newId d data =
     (Inl (ConflictError ''Member with this email already exists''), d)"
  using email_given [OF assms(1,2)] assms(3) by (simp add: create_def findFirst_None)

lemma update_duplicate:
  assumes "findFirst (\<lambda>m. m_id m = id') (members d) = Some existingMember"
    and "d_email data = Val e" and "e \<noteq> []" and "m_email existingMember \<noteq> Some e"
    and "list_ex (\<lambda>m. m_email m = Some e) (members d)"
  shows "update refused d id' data =
     (Inl (ConflictError ''Member with this email already exists''), d)"
  using email_given [OF assms(2,3)] assms(1,4,5)
  by (auto simp: update_def findFirst_None)

lemma create_no_email:
  assumes "to_column (d_email data) = None" and "d_name data = Some n" and "\<not> refused"
  shows "\<exists>member. create refused newId d data =
            (Inr member, d\<lparr>members := members d @ [member]\<rparr>) \<and>
          m_id member = newId \<and> m_name member = n \<and> m_email member = None"
proof -
  have "\<not> truthy_field (d_email data)"
    using assms(1) by (cases "d_email data") (simp_all add: truthy_field_def to_column_def)
  then show ?thesis
    using assms
    by (simp add: create_def prisma_member_create_def email_taken_def)
qed

lemma errorHandler_P2002:
  "errorHandler dev (PrismaError ''P2002'' message) =
     Some \<lparr>res_status = 409, res_success = False,
           res_message = ''Duplicate field value entered'', res_debug = dev\<rparr>"
  by (simp add: errorHandler_def PrismaError_def ConflictError_def CustomError_def
        status_or_500_def message_or_default_def)

lemma errorHandler_Conflict:
  "map_option res_status (errorHandler dev (ConflictError message)) = Some 409"
  by (simp add: ConflictError_def errorHandler_CustomError status_or_500_def)

lemma create_borne_email:
  assumes "d_email data = Val e" and "list_ex (\<lambda>m. m_email m = Some e) (members d)"
    and "d_name data = Some n"
  shows "\<exists>err. create refused newId d data = (Inl err, d) \<and>
           map_option res_status (errorHandler dev err) = Some 409"
proof (cases "e = []")
  case False
  then show ?thesis
    using create_duplicate [OF assms(1) _ assms(2)] errorHandler_Conflict by simp
next
  case True
  then have "\<not> truthy_field (d_email data)" and "to_column (d_email data) = Some e"
    using assms(1) by (simp_all add: truthy_field_def to_column_def)
  then show ?thesis
    using assms(2,3)
    by (simp add: create_def prisma_member_create_def email_taken_def errorHandler_P2002)
qed

lemma list_ex_filter: "list_ex p (filter q rows) \<longleftrightarrow> list_ex (\<lambda>r. q r \<and> p r) rows"
  by (induction rows) auto

lemma update_borne_email:
  assumes "findFirst (\<lambda>m. m_id m = id') (members d) = Some existingMember"
    and "d_email data = Val e" and "m_email existingMember \<noteq> Some e"
    and "list_ex (\<lambda>m. m_id m \<noteq> id' \<and> m_email m = Some e) (members d)"
  shows "\<exists>err. update refused d id' data = (Inl err, d) \<and>
           map_option res_status (errorHandler dev err) = Some 409"
proof (cases "e = []")
  case False
  have "list_ex (\<lambda>m. m_email m = Some e) (members d)"
    using assms(4) by (auto simp: list_ex_iff)
  then show ?thesis
    using update_duplicate [OF assms(1,2) False assms(3)] errorHandler_Conflict by simp
next
  case True
  then have "\<not> truthy_field (d_email data)"
    using assms(2) by (simp add: truthy_field_def)
  moreover have "set_column (d_email data) x = Some e" for x
    using assms(2) by (simp add: set_column_def)
  ultimately show ?thesis
    using assms(1,4)
    by (simp add: update_def prisma_member_update_def email_taken_def list_ex_filter
          errorHandler_P2002)
qed

text \<open>
  Claim C5. A member-create request whose payload carries an email (a non-empty string)
  that an existing member bears throws a \<open>ConflictError\<close>, status 409, and leaves the
  database as it was, so no member is created. A member-update request on an existing
  member that changes the email to one that a member bears throws the same error and
  leaves the database as it was. A create with no email and a name makes no duplicate
  check: it adds the member whatever emails the other members have, unless the database
  refuses the row for a constraint on another column. Whatever the email, empty or
  not, a create with a name or an update that would give a second member the same
  email ends in an error that the error handler answers with status 409, and changes
  nothing: for the empty string, which the duplicate check skips, the unique index of
  the database refuses the row.
\<close>

theorem member_email_conflict:
  "(d_email data = Val e \<and> e \<noteq> '''' \<and> list_ex (\<lambda>m. m_email m = Some e) (members d) \<longrightarrow>
      create refused newId d data =
        (Inl (ConflictError ''Member with this email already exists''), d) \<and>
      err_statusCode (ConflictError ''Member with this email already exists'') = Some 409) \<and>
   (findFirst (\<lambda>m. m_id m = id') (members d) = Some existingMember \<and>
    d_email data = Val e \<and> e \<noteq> '''' \<and> m_email existingMember \<noteq> Some e \<and>
    list_ex (\<lambda>m. m_email m = Some e) (members d) \<longrightarrow>
      update refused d id' data =
        (Inl (ConflictError ''Member with this email already exists''), d)) \<and>
   (to_column (d_email data) = None \<and> d_name data = Some n \<and> \<not> refused \<longrightarrow>
      (\<exists>member. create refused newId d data =
            (Inr member, d\<lparr>members := members d @ [member]\<rparr>) \<and>
          m_id member = newId \<and> m_name member = n \<and> m_email member = None)) \<and>
   (d_email data = Val e \<and> list_ex (\<lambda>m. m_email m = Some e) (members d) \<and>
    d_name data = Some n \<longrightarrow>
      (\<exists>err. create refused newId d data = (Inl err, d) \<and>
            map_option res_status (errorHandler dev err) = Some 409)) \<and>
   (findFirst (\<lambda>m. m_id m = id') (members d) = Some existingMember \<and>
    d_email data = Val e \<and> m_email existingMember \<noteq> Some e \<and>
    list_ex (\<lambda>m. m_id m \<noteq> id' \<and> m_email m = Some e) (members d) \<longrightarrow>
      (\<exists>err. update refused d id' data = (Inl err, d) \<and>
            map_option res_status (errorHandler dev err) = Some 409))"
proof (intro conjI impI; (elim conjE)?)
  assume "d_email data = Val e" "e \<noteq> ''''" "list_ex (\<lambda>m. m_email m = Some e) (members d)"
  then show "create refused newId d data =
        (Inl (ConflictError ''Member with this email already exists''), d)"
    by (rule create_duplicate)
next
  show "err_statusCode (ConflictError ''Member with this email already exists'') = Some 409"
    by (simp add: ConflictError_def CustomError_def)
next
  assume "findFirst (\<lambda>m. m_id m = id') (members d) = Some existingMember"
    "d_email data = Val e" "e \<noteq> ''''" "m_email existingMember \<noteq> Some e"
    "list_ex (\<lambda>m. m_email m = Some e) (members d)"
  then show "update refused d id' data =
        (Inl (ConflictError ''Member with this email already exists''), d)"
    by (rule update_duplicate)
next
  assume "to_column (d_email data) = None" "d_name data = Some n" "\<not> refused"
  then show "\<exists>member. create refused newId d data =
            (Inr member, d\<lparr>members := members d @ [member]\<rparr>) \<and>
          m_id member = newId \<and> m_name member = n \<and> m_email member = None"
    by (rule create_no_email)
next
  assume "d_email data = Val e" "list_ex (\<lambda>m. m_email m = Some e) (members d)"
    "d_name data = Some n"
  then show "\<exists>err. create refused newId d data = (Inl err, d) \<and>
            map_option res_status (errorHandler dev err) = Some 409"
    by (rule create_borne_email)
next
  assume "findFirst (\<lambda>m. m_id m = id') (members d) = Some existingMember"
    "d_email data = Val e" "m_email existingMember \<noteq> Some e"
    "list_ex (\<lambda>m. m_id m \<noteq> id' \<and> m_email m = Some e) (members d)"
  then show "\<exists>err. update refused d id' data = (Inl err, d) \<and>
            map_option res_status (errorHandler dev err) = Some 409"
    by (rule update_borne_email)
qed

theorem member_email_conflict_witness:
  "create False ''m2''
     (empty_db\<lparr>members := [mk_member ''ann'' (Some ''ann@x.org'') None True]\<rparr>)
     ((only_name ''Ann B'')\<lparr>d_email := Val ''ann@x.org''\<rparr>) =
     (Inl (ConflictError ''Member with this email already exists''),
      empty_db\<lparr>members := [mk_member ''ann'' (Some ''ann@x.org'') None True]\<rparr>) \<and>
   update False
     (empty_db\<lparr>members := [mk_member ''ann'' (Some ''ann@x.org'') None True,
                           mk_member ''bob'' (Some ''bob@x.org'') None True]\<rparr>)
     ''bob'' ((only_name ''Bob'')\<lparr>d_email := Val ''ann@x.org''\<rparr>) =
     (Inl (ConflictError ''Member with this email already exists''),
      empty_db\<lparr>members := [mk_member ''ann'' (Some ''ann@x.org'') None True,
                           mk_member ''bob'' (Some ''bob@x.org'') None True]\<rparr>) \<and>
   members (snd (create False ''m2''
     (empty_db\<lparr>members := [mk_member ''ann'' (Some ''ann@x.org'') None True]\<rparr>)
     (only_name ''Cy''))) =
     [mk_member ''ann'' (Some ''ann@x.org'') None True,
      (mk_member ''m2'' None None True)\<lparr>m_name := ''Cy''\<rparr>]"
  using
    member_email_conflict [of "(only_name ''Ann B'')\<lparr>d_email := Val ''ann@x.org''\<rparr>"
      "''ann@x.org''"
      "empty_db\<lparr>members := [mk_member ''ann'' (Some ''ann@x.org'') None True]\<rparr>"
      False "''m2''" "''none''" "mk_member ''ann'' (Some ''ann@x.org'') None True" "''Ann B''"
      False]
    member_email_conflict [of "(only_name ''Bob'')\<lparr>d_email := Val ''ann@x.org''\<rparr>"
      "''ann@x.org''"
      "empty_db\<lparr>members := [mk_member ''ann'' (Some ''ann@x.org'') None True,
                           mk_member ''bob'' (Some ''bob@x.org'') None True]\<rparr>"
      False "''m2''" "''bob''" "mk_member ''bob'' (Some ''bob@x.org'') None True" "''Bob''"
      False]
    member_email_conflict [of "only_name ''Cy''" "''''"
      "empty_db\<lparr>members := [mk_member ''ann'' (Some ''ann@x.org'') None True]\<rparr>"
      False "''m2''" "''none''" "mk_member ''ann'' (Some ''ann@x.org'') None True" "''Cy''"
      False]
  by (simp add: only_name_def empty_db_def mk_member_def findFirst_def to_column_def
        create_def prisma_member_create_def email_taken_def truthy_field_def)

section \<open>Properties of the periodic statistics\<close>

lemma keys_add_to_period: "map fst (add_to_period k a g) = map fst g"
  by (induction g) (auto simp: add_to_period_def)

lemma keys_ensure_period:
  "map fst (ensure_period k g) = (if k \<in> set (map fst g) then map fst g else map fst g @ [k])"
  by (auto simp: ensure_period_def map_of_eq_None_iff)

lemma map_of_add_to_period:
  "map_of (add_to_period k a g) k' =
     (if k' = k
      then map_option (\<lambda>s. s\<lparr>amount := amount s + a, count := count s + 1\<rparr>) (map_of g k)
      else map_of g k')"
  by (induction g) (auto simp: add_to_period_def)

lemma map_of_ensure_period:
  "map_of (ensure_period k g) k' =
     (if k' = k \<and> map_of g k = None then Some \<lparr>amount = 0, count = 0\<rparr> else map_of g k')"
  by (auto simp: ensure_period_def map_add_def split: option.splits)

lemma keys_add_contribution:
  "map fst (add_contribution groupBy g c) =
     (if periodKey groupBy (c_date c) \<in> set (map fst g) then map fst g
      else map fst g @ [periodKey groupBy (c_date c)])"
  unfolding add_contribution_def Let_def keys_add_to_period keys_ensure_period ..

lemma distinct_add_contribution:
  "distinct (map fst g) \<Longrightarrow> distinct (map fst (add_contribution groupBy g c))"
  unfolding keys_add_contribution by simp

lemma distinct_grouped:
  "distinct (map fst (foldl (add_contribution groupBy) [] cs))"
  by (induction cs rule: rev_induct) (simp_all add: distinct_add_contribution)

lemma keys_grouped:
  "set (map fst (foldl (add_contribution groupBy) [] cs)) =
     (\<lambda>c. periodKey groupBy (c_date c)) ` set cs"
  by (induction cs rule: rev_induct) (auto simp: keys_add_contribution)

lemma in_period_snoc:
  "in_period groupBy k (cs @ [c]) =
     (if periodKey groupBy (c_date c) = k then in_period groupBy k cs @ [c]
      else in_period groupBy k cs)"
  by (simp add: in_period_def)

lemma map_of_add_contribution:
  "map_of (add_contribution groupBy g c) k =
     (if k = periodKey groupBy (c_date c)
      then Some (case map_of g k of
                   None \<Rightarrow> \<lparr>amount = 0 + c_amount c, count = 1\<rparr>
                 | Some s \<Rightarrow> s\<lparr>amount := amount s + c_amount c, count := count s + 1\<rparr>)
      else map_of g k)"
  by (simp add: add_contribution_def Let_def map_of_add_to_period map_of_ensure_period
        split: option.split)

lemma map_of_grouped:
  "map_of (foldl (add_contribution groupBy) [] cs) k =
     (if in_period groupBy k cs = [] then None
      else Some \<lparr>amount = foldl (+) 0 (map c_amount (in_period groupBy k cs)),
                 count = length (in_period groupBy k cs)\<rparr>)"
proof (induction cs rule: rev_induct)
  case Nil
  show ?case by (simp add: in_period_def)
next
  case (snoc c cs)
  show ?case
    unfolding foldl_append foldl_Cons foldl_Nil map_of_add_contribution snoc.IH
    by (simp add: in_period_snoc)
qed

lemma counts_ensure_period:
  "sum_list (map (\<lambda>(k, s). count s) (ensure_period k g)) =
   sum_list (map (\<lambda>(k, s). count s) g)"
  by (simp add: ensure_period_def)

lemma counts_add_to_period:
  "distinct (map fst g) \<Longrightarrow> k \<in> set (map fst g) \<Longrightarrow>
   sum_list (map (\<lambda>(k, s). count s) (add_to_period k a g)) =
   sum_list (map (\<lambda>(k, s). count s) g) + 1"
proof (induction g)
  case Nil
  then show ?case by simp
next
  case (Cons p g)
  obtain k' s where p: "p = (k', s)" by (cases p)
  show ?case
  proof (cases "k' = k")
    case True
    then have "k \<notin> set (map fst g)" using Cons.prems(1) p by simp
    then have "add_to_period k a g = g"
      by (induction g) (auto simp: add_to_period_def)
    then show ?thesis
      using True p by (simp add: add_to_period_def)
  next
    case False
    then have "k \<in> set (map fst g)" using Cons.prems(2) p by auto
    moreover have "distinct (map fst g)" using Cons.prems(1) by simp
    ultimately have "sum_list (map (\<lambda>(k, s). count s) (add_to_period k a g)) =
      sum_list (map (\<lambda>(k, s). count s) g) + 1"
      by (rule Cons.IH [rotated])
    then show ?thesis
      using False p by (simp add: add_to_period_def)
  qed
qed

lemma counts_add_contribution:
  assumes "distinct (map fst g)"
  shows "sum_list (map (\<lambda>(k, s). count s) (add_contribution groupBy g c)) =
         sum_list (map (\<lambda>(k, s). count s) g) + 1"
proof -
  let ?kc = "periodKey groupBy (c_date c)"
  have "distinct (map fst (ensure_period ?kc g))"
    unfolding keys_ensure_period using assms by simp
  moreover have "?kc \<in> set (map fst (ensure_period ?kc g))"
    unfolding keys_ensure_period by simp
  ultimately have "sum_list (map (\<lambda>(k, s). count s)
      (add_to_period ?kc (c_amount c) (ensure_period ?kc g))) =
    sum_list (map (\<lambda>(k, s). count s) (ensure_period ?kc g)) + 1"
    by (rule counts_add_to_period)
  then show ?thesis
    by (simp add: add_contribution_def Let_def counts_ensure_period)
qed

lemma counts_grouped:
  "sum_list (map (\<lambda>(k, s). count s) (foldl (add_contribution groupBy) [] cs)) = length cs"
proof (induction cs rule: rev_induct)
  case Nil
  show ?case by simp
next
  case (snoc c cs)
  show ?case
    unfolding foldl_append foldl_Cons foldl_Nil
      counts_add_contribution [OF distinct_grouped] snoc.IH
    by simp
qed
lemma sum_list_insort_key:
  "sum_list (map f (insort_key k x xs)) = (f x :: nat) + sum_list (map f xs)"
  by (induction xs) simp_all

lemma sum_list_sort_key:
  "sum_list (map f (sort_key k xs)) = sum_list (map (f::'a \<Rightarrow> nat) xs)"
  by (induction xs) (simp_all add: sum_list_insort_key)

lemma sum_list_partition:
  "sum_list (map f (filter P xs)) + sum_list (map f (filter (\<lambda>x. \<not> P x) xs)) =
   sum_list (map (f::'a \<Rightarrow> nat) xs)"
  by (induction xs) simp_all

lemma set_Object_entries: "set (Object_entries g) = set g"
  by (auto simp: Object_entries_def)

lemma sum_list_Object_entries:
  "sum_list (map f (Object_entries g)) = sum_list (map (f::string \<times> 'b \<Rightarrow> nat) g)"
proof -
  have "filter (\<lambda>(k, s). array_index k = None) g =
        filter (\<lambda>x. \<not> (case x of (k, s) \<Rightarrow> array_index k \<noteq> None)) g"
    by (rule filter_cong) auto
  then show ?thesis
    unfolding Object_entries_def
    by (simp add: sum_list_sort_key sum_list_partition)
qed

lemma distinct_Object_entries:
  assumes "distinct (map fst g)"
  shows "distinct (map fst (Object_entries g))"
proof -
  have d: "distinct g" and inj: "inj_on fst (set g)"
    using assms by (simp_all add: distinct_map)
  have "distinct (Object_entries g)"
    using d by (auto simp: Object_entries_def)
  moreover have "inj_on fst (set (Object_entries g))"
    using inj by (simp add: set_Object_entries)
  ultimately show ?thesis
    by (simp add: distinct_map)
qed

lemma keys_Object_entries: "set (map fst (Object_entries g)) = set (map fst g)"
  by (simp add: set_Object_entries)

lemma getPeriodicStats_rows:
  "r \<in> set (getPeriodicStats w groupBy rows) \<Longrightarrow>
   \<exists>k s. map_of (foldl (add_contribution groupBy) [] (matching_contributions w rows)) k = Some s \<and>
         r = \<lparr>period = k, totalAmount = amount s, count' = count s,
               averageAmount = amount s / number_of_count (count s)\<rparr>"
  using distinct_grouped [of groupBy "matching_contributions w rows"]
  by (auto simp: getPeriodicStats_def Let_def set_Object_entries)

lemma periods_getPeriodicStats:
  "map period (getPeriodicStats w groupBy rows) =
   map fst (Object_entries
     (foldl (add_contribution groupBy) [] (matching_contributions w rows)))"
  by (simp add: getPeriodicStats_def Let_def case_prod_beta comp_def)

lemma counts_getPeriodicStats:
  "map count' (getPeriodicStats w groupBy rows) =
   map (\<lambda>(k, s). count s)
     (Object_entries (foldl (add_contribution groupBy) [] (matching_contributions w rows)))"
  by (simp add: getPeriodicStats_def Let_def case_prod_beta comp_def)

text \<open>
  Claim C7. The periodic statistic puts every contribution that matches the filter into
  the period its date gives under \<open>groupBy\<close>: year and month for \<open>month\<close>, year and
  quarter, the quarter being \<open>floor(month / 3) + 1\<close>, for \<open>quarter\<close>, the year for
  \<open>year\<close>, and the calendar day otherwise. The periods emitted are distinct and are
  exactly the periods of the matching contributions, and the counts add up to the number
  of matching contributions. For each period emitted, \<open>count\<close> is the number of
  contributions of the period and is at least 1, \<open>totalAmount\<close> is the sum of their
  amounts, added in the order of their dates, and \<open>averageAmount\<close> is \<open>totalAmount\<close>
  divided by \<open>count\<close>.
\<close>

theorem getPeriodicStats_groups:
  "distinct (map period (getPeriodicStats w groupBy rows)) \<and>
   set (map period (getPeriodicStats w groupBy rows)) =
     (\<lambda>c. periodKey groupBy (c_date c)) ` set (matching_contributions w rows) \<and>
   set (matching_contributions w rows) = {c \<in> set rows. date_matches w c} \<and>
   length (matching_contributions w rows) = length (filter (date_matches w) rows) \<and>
   sum_list (map count' (getPeriodicStats w groupBy rows)) =
     length (matching_contributions w rows) \<and>
   (\<forall>r \<in> set (getPeriodicStats w groupBy rows).
      count' r = length (in_period groupBy (period r) (matching_contributions w rows)) \<and>
      1 \<le> count' r \<and>
      totalAmount r =
        foldl (+) 0 (map c_amount (in_period groupBy (period r) (matching_contributions w rows))) \<and>
      averageAmount r = totalAmount r / number_of_count (count' r)) \<and>
   periodKey ''month'' date =
     String_of (getFullYear date) @ ''-'' @
     padStart 2 (CHR ''0'') (String_of (int (getMonth date + 1))) \<and>
   periodKey ''quarter'' date =
     String_of (getFullYear date) @ ''-Q'' @ String_of (int (getMonth date div 3 + 1)) \<and>
   periodKey ''year'' date = String_of (getFullYear date) \<and>
   (groupBy \<noteq> ''month'' \<and> groupBy \<noteq> ''quarter'' \<and> groupBy \<noteq> ''year'' \<longrightarrow>
      periodKey groupBy date = isoDay date)"
proof (intro conjI ballI impI)
  show "distinct (map period (getPeriodicStats w groupBy rows))"
    unfolding periods_getPeriodicStats by (rule distinct_Object_entries [OF distinct_grouped])
  show "set (map period (getPeriodicStats w groupBy rows)) =
     (\<lambda>c. periodKey groupBy (c_date c)) ` set (matching_contributions w rows)"
    unfolding periods_getPeriodicStats keys_Object_entries by (rule keys_grouped)
  show "set (matching_contributions w rows) = {c \<in> set rows. date_matches w c}"
    by (auto simp: matching_contributions_def)
  show "length (matching_contributions w rows) = length (filter (date_matches w) rows)"
    by (simp add: matching_contributions_def)
  show "sum_list (map count' (getPeriodicStats w groupBy rows)) =
     length (matching_contributions w rows)"
    unfolding counts_getPeriodicStats sum_list_Object_entries by (rule counts_grouped)
next
  fix r assume "r \<in> set (getPeriodicStats w groupBy rows)"
  then obtain k s
    where s: "map_of (foldl (add_contribution groupBy) [] (matching_contributions w rows)) k =
                Some s"
      and r: "r = \<lparr>period = k, totalAmount = amount s, count' = count s,
                   averageAmount = amount s / number_of_count (count s)\<rparr>"
    using getPeriodicStats_rows by blast
  let ?cs = "in_period groupBy k (matching_contributions w rows)"
  have ne: "?cs \<noteq> []" and s': "s = \<lparr>amount = foldl (+) 0 (map c_amount ?cs),
                                        count = length ?cs\<rparr>"
    using s unfolding map_of_grouped by (simp_all split: if_splits)
  show "count' r = length (in_period groupBy (period r) (matching_contributions w rows))"
    by (simp add: r s')
  show "1 \<le> count' r"
    using ne by (cases ?cs) (simp_all add: r s')
  show "totalAmount r =
        foldl (+) 0 (map c_amount (in_period groupBy (period r) (matching_contributions w rows)))"
    by (simp add: r s')
  show "averageAmount r = totalAmount r / number_of_count (count' r)"
    by (simp add: r)
next
  show "periodKey ''month'' date =
     String_of (getFullYear date) @ ''-'' @
     padStart 2 (CHR ''0'') (String_of (int (getMonth date + 1)))"
    by (simp add: periodKey_def)
  show "periodKey ''quarter'' date =
     String_of (getFullYear date) @ ''-Q'' @ String_of (int (getMonth date div 3 + 1))"
    by (simp add: periodKey_def)
  show "periodKey ''year'' date = String_of (getFullYear date)"
    by (simp add: periodKey_def)
next
  assume "groupBy \<noteq> ''month'' \<and> groupBy \<noteq> ''quarter'' \<and> groupBy \<noteq> ''year''"
  then show "periodKey groupBy date = isoDay date"
    by (simp add: periodKey_def)
qed

lemma quarter_keys:
  "periodKey ''quarter'' \<lparr>getTime = t, getFullYear = 2024, getMonth = 0, isoDay = s\<rparr> =
     ''2024-Q1''"
  "periodKey ''quarter'' \<lparr>getTime = t, getFullYear = 2024, getMonth = 2, isoDay = s\<rparr> =
     ''2024-Q1''"
  "periodKey ''quarter'' \<lparr>getTime = t, getFullYear = 2024, getMonth = 3, isoDay = s\<rparr> =
     ''2024-Q2''"
  "periodKey ''month'' \<lparr>getTime = t, getFullYear = 2024, getMonth = 2, isoDay = s\<rparr> =
     ''2024-03''"
  by (simp_all add: periodKey_def String_of_def padStart_def digits_of.simps)

theorem getPeriodicStats_groups_witness:
  "getPeriodicStats \<lparr>date_gte = Some 500, date_lte = None\<rparr> ''quarter''
     [\<lparr>c_date = \<lparr>getTime = 3000, getFullYear = 2024, getMonth = 3, isoDay = ''2024-04-10''\<rparr>,
       c_amount = (5::real)\<rparr>,
      \<lparr>c_date = \<lparr>getTime = 1000, getFullYear = 2024, getMonth = 0, isoDay = ''2024-01-15''\<rparr>,
       c_amount = 10\<rparr>,
      \<lparr>c_date = \<lparr>getTime = 100, getFullYear = 2023, getMonth = 11, isoDay = ''2023-12-31''\<rparr>,
       c_amount = 7\<rparr>,
      \<lparr>c_date = \<lparr>getTime = 2000, getFullYear = 2024, getMonth = 2, isoDay = ''2024-03-02''\<rparr>,
       c_amount = 20\<rparr>] =
     [\<lparr>period = ''2024-Q1'', totalAmount = 30, count' = 2, averageAmount = 15\<rparr>,
      \<lparr>period = ''2024-Q2'', totalAmount = 5, count' = 1, averageAmount = 5\<rparr>] \<and>
   length (matching_contributions \<lparr>date_gte = Some 500, date_lte = None\<rparr>
     [\<lparr>c_date = \<lparr>getTime = 3000, getFullYear = 2024, getMonth = 3, isoDay = ''2024-04-10''\<rparr>,
       c_amount = (5::real)\<rparr>,
      \<lparr>c_date = \<lparr>getTime = 1000, getFullYear = 2024, getMonth = 0, isoDay = ''2024-01-15''\<rparr>,
       c_amount = 10\<rparr>,
      \<lparr>c_date = \<lparr>getTime = 100, getFullYear = 2023, getMonth = 11, isoDay = ''2023-12-31''\<rparr>,
       c_amount = 7\<rparr>,
      \<lparr>c_date = \<lparr>getTime = 2000, getFullYear = 2024, getMonth = 2, isoDay = ''2024-03-02''\<rparr>,
       c_amount = 20\<rparr>]) = 3 \<and>
   map period (getPeriodicStats \<lparr>date_gte = None, date_lte = None\<rparr> ''year''
     [\<lparr>c_date = \<lparr>getTime = - 62198755200000, getFullYear = - 1, getMonth = 0,
                  isoDay = ''-000001-01-01''\<rparr>, c_amount = (1::real)\<rparr>,
      \<lparr>c_date = \<lparr>getTime = - 62009366400000, getFullYear = 5, getMonth = 0,
                  isoDay = ''0005-01-01''\<rparr>, c_amount = 2\<rparr>]) = [''5'', ''-1'']"
proof -
  let ?w = "\<lparr>date_gte = Some 500, date_lte = None\<rparr>"
  let ?rows = "[\<lparr>c_date = \<lparr>getTime = 3000, getFullYear = 2024, getMonth = 3,
                          isoDay = ''2024-04-10''\<rparr>, c_amount = (5::real)\<rparr>,
      \<lparr>c_date = \<lparr>getTime = 1000, getFullYear = 2024, getMonth = 0, isoDay = ''2024-01-15''\<rparr>,
       c_amount = 10\<rparr>,
      \<lparr>c_date = \<lparr>getTime = 100, getFullYear = 2023, getMonth = 11, isoDay = ''2023-12-31''\<rparr>,
       c_amount = 7\<rparr>,
      \<lparr>c_date = \<lparr>getTime = 2000, getFullYear = 2024, getMonth = 2, isoDay = ''2024-03-02''\<rparr>,
       c_amount = 20\<rparr>]"
  have eval: "getPeriodicStats ?w ''quarter'' ?rows =
     [\<lparr>period = ''2024-Q1'', totalAmount = 30, count' = 2, averageAmount = 15\<rparr>,
      \<lparr>period = ''2024-Q2'', totalAmount = 5, count' = 1, averageAmount = 5\<rparr>]"
    by (simp add: getPeriodicStats_def matching_contributions_def date_matches_def
          add_contribution_def ensure_period_def add_to_period_def quarter_keys Let_def
          Object_entries_def array_index_def digit_value_def)
  have "sum_list (map count' (getPeriodicStats ?w ''quarter'' ?rows)) =
        length (matching_contributions ?w ?rows)"
    using getPeriodicStats_groups [of ?w "''quarter''" ?rows
        "\<lparr>getTime = 0, getFullYear = 1970, getMonth = 0, isoDay = ''1970-01-01''\<rparr>"]
    by blast
  moreover have "map period (getPeriodicStats \<lparr>date_gte = None, date_lte = None\<rparr> ''year''
     [\<lparr>c_date = \<lparr>getTime = - 62198755200000, getFullYear = - 1, getMonth = 0,
                  isoDay = ''-000001-01-01''\<rparr>, c_amount = (1::real)\<rparr>,
      \<lparr>c_date = \<lparr>getTime = - 62009366400000, getFullYear = 5, getMonth = 0,
                  isoDay = ''0005-01-01''\<rparr>, c_amount = 2\<rparr>]) = [''5'', ''-1'']"
    by (simp add: getPeriodicStats_def matching_contributions_def date_matches_def
          add_contribution_def ensure_period_def add_to_period_def Let_def periodKey_def
          String_of_def digits_of.simps Object_entries_def array_index_def digit_value_def)
  ultimately show ?thesis using eval by simp
qed

end
